theory Spec2Isabelle
  imports Main
begin

section \<open>JavaScript strings\<close>

text \<open>
  A JavaScript string is a sequence of UTF-16 code units. The terminal pane compares,
  trims, splits and concatenates strings, some of whose literals are not ASCII, so a
  string is modelled as the list of its code units (natural numbers below 65536; the
  functions below are defined for every list). \<open>js\<close> embeds an ASCII literal.
\<close>

type_synonym jsstring = "nat list"

definition js :: "string \<Rightarrow> jsstring" where
  "js s = map of_char s"

text \<open>
  \<open>String.prototype.trim\<close> removes the code units of WhiteSpace and LineTerminator
  (ECMA-262) from both ends: TAB, LF, VT, FF, CR, SP, NBSP, U+1680, U+2000..U+200A,
  U+2028, U+2029, U+202F, U+205F, U+3000 and U+FEFF.
\<close>

definition isWhiteSpace :: "nat \<Rightarrow> bool" where
  "isWhiteSpace c \<longleftrightarrow>
     c \<in> set [9, 10, 11, 12, 13, 32, 160, 5760, 8232, 8233, 8239, 8287, 12288, 65279]
     \<or> (8192 \<le> c \<and> c \<le> 8202)"

definition trim :: "jsstring \<Rightarrow> jsstring" where
  "trim s = rev (dropWhile isWhiteSpace (rev (dropWhile isWhiteSpace s)))"

definition startsWith :: "jsstring \<Rightarrow> jsstring \<Rightarrow> bool" where
  "startsWith s p \<longleftrightarrow> take (length p) s = p"

text \<open>
  \<open>s.replace(pat, rep)\<close> with a string pattern replaces the first occurrence of
  \<open>pat\<close> only. The one replacement text the pane uses is \<open>'~'\<close>, which holds no
  \<open>$\<close> pattern, so it is inserted as it is.
\<close>

fun replace :: "jsstring \<Rightarrow> jsstring \<Rightarrow> jsstring \<Rightarrow> jsstring" where
  "replace [] pat rep = (if pat = [] then rep else [])"
| "replace (c # cs) pat rep =
     (if startsWith (c # cs) pat then rep @ drop (length pat) (c # cs)
      else c # replace cs pat rep)"

text \<open>\<open>a || b\<close> on strings: the empty string is the only falsy string.\<close>

definition or_else :: "jsstring \<Rightarrow> jsstring \<Rightarrow> jsstring" where
  "or_else a b = (if a \<noteq> [] then a else b)"

text \<open>\<open>s.split('\n')\<close>: the segments between line feeds; the empty string gives one empty segment.\<close>

fun split_lines :: "jsstring \<Rightarrow> jsstring list" where
  "split_lines [] = [[]]"
| "split_lines (c # cs) =
     (if c = 10 then [] # split_lines cs
      else (case split_lines cs of
              [] \<Rightarrow> [[c]]
            | seg # segs \<Rightarrow> (c # seg) # segs))"

text \<open>\<open>xs.join(sep)\<close>.\<close>

fun join :: "jsstring \<Rightarrow> jsstring list \<Rightarrow> jsstring" where
  "join sep [] = []"
| "join sep [x] = x"
| "join sep (x # y # ys) = x @ sep @ join sep (y # ys)"

text \<open>
  The decimal text of a non-negative integer. A template literal renders a number that
  is an integer from 0 to \<open>2^53 - 1\<close> so, as a port number is; a larger number is
  rounded to a double and, from \<open>1e21\<close> on, printed in exponent form, which this
  function does not follow. Statements about the printed port carry the bound.
\<close>

function numberToString :: "nat \<Rightarrow> jsstring" where
  "numberToString n =
     (if n < 10 then [48 + n] else numberToString (n div 10) @ [48 + n mod 10])"
  by pat_completeness auto
termination
  by (relation "measure id") auto

text \<open>
  \<open>toLowerCase\<close> on the ASCII letters. The pane only compares the result with
  \<open>'root'\<close>; no code unit outside A-Z lower-cases to one of r, o, t, so that
  comparison is the same under the full Unicode mapping.
\<close>

definition toLowerCase :: "jsstring \<Rightarrow> jsstring" where
  "toLowerCase s = map (\<lambda>c. if 65 \<le> c \<and> c \<le> 90 then c + 32 else c) s"

text \<open>
  \<open>parseInt(s)\<close> without a radix: leading white space, an optional sign, then
  hexadecimal digits after \<open>0x\<close>/\<open>0X\<close> or else decimal digits, up to the first code unit
  that is no digit. \<open>None\<close> is NaN. The result is an exact integer here (a double in
  JavaScript); the pane only asks whether it is falsy (NaN or zero) or equal to zero.
\<close>

definition digit_value :: "nat \<Rightarrow> nat \<Rightarrow> nat option" where
  "digit_value radix c =
     (let v = (if 48 \<le> c \<and> c \<le> 57 then Some (c - 48)
               else if 97 \<le> c \<and> c \<le> 122 then Some (c - 87)
               else if 65 \<le> c \<and> c \<le> 90 then Some (c - 55)
               else None)
      in case v of None \<Rightarrow> None | Some d \<Rightarrow> if d < radix then Some d else None)"

fun parse_digits :: "nat \<Rightarrow> nat option \<Rightarrow> jsstring \<Rightarrow> nat option" where
  "parse_digits radix acc [] = acc"
| "parse_digits radix acc (c # cs) =
     (case digit_value radix c of
        None \<Rightarrow> acc
      | Some d \<Rightarrow> parse_digits radix (Some ((case acc of None \<Rightarrow> 0 | Some a \<Rightarrow> a) * radix + d)) cs)"

definition parseInt :: "jsstring \<Rightarrow> int option" where
  "parseInt s =
     (let t = dropWhile isWhiteSpace s;
          neg = (t \<noteq> [] \<and> hd t = 45);
          u = (if t \<noteq> [] \<and> (hd t = 45 \<or> hd t = 43) then tl t else t);
          hex = (startsWith u (js ''0x'') \<or> startsWith u (js ''0X''));
          m = (if hex then parse_digits 16 None (drop 2 u) else parse_digits 10 None u)
      in case m of None \<Rightarrow> None | Some n \<Rightarrow> Some (if neg then - int n else int n))"

section \<open>Data of the terminal pane\<close>

text \<open>A display line of the scroll-back: \<open>{ type, content, prompt }\<close>.\<close>

datatype line_type = Input | Output | Error

record output_line =
  type :: line_type
  content :: jsstring
  prompt :: jsstring

text \<open>\<open>promptInfo\<close>: \<open>{ username, hostname, isRoot, currentDir }\<close>.\<close>

record prompt_info =
  username :: jsstring
  hostname :: jsstring
  isRoot :: bool
  currentDir :: jsstring

text \<open>
  The \<open>server\<close> prop (fields prefixed, as \<open>id\<close> and \<open>username\<close> are taken). \<open>name\<close> may
  be missing. The port is a non-negative integer.
\<close>

record server =
  server_id :: jsstring
  server_name :: "jsstring option"
  server_host :: jsstring
  server_port :: nat
  server_username :: jsstring
  server_connected :: bool

text \<open>An event handed to \<open>emit('record', ...)\<close>: \<open>{ type: 'input' | 'output', content }\<close>.\<close>

datatype record_event = RecordInput jsstring | RecordOutput jsstring

text \<open>
  The reactive state of one pane: the \<open>ref\<close>s of the component, and the list of the
  record events it has emitted.
\<close>

record pane =
  outputLines :: "output_line list"
  currentInput :: jsstring
  currentPrompt :: jsstring
  commandHistory :: "jsstring list"
  historyIndex :: int
  promptInfo :: prompt_info
  currentWorkingDir :: jsstring
  recorded :: "record_event list"

definition welcome_text :: jsstring where
  "welcome_text = [27426, 36814, 20351, 29992] @ js '' MySSH '' @ [32456, 31471]"

definition default_promptInfo :: prompt_info where
  "default_promptInfo = \<lparr>username = [], hostname = [], isRoot = False, currentDir = js ''~''\<rparr>"

definition init_pane :: pane where
  "init_pane =
     \<lparr>outputLines = [\<lparr>type = Output, content = welcome_text, prompt = []\<rparr>],
      currentInput = [],
      currentPrompt = js ''$ '',
      commandHistory = [],
      historyIndex = - 1,
      promptInfo = default_promptInfo,
      currentWorkingDir = js ''~'',
      recorded = []\<rparr>"

section \<open>Prompt and directory\<close>

text \<open>\<open>updatePrompt\<close> (lines 362-366).\<close>

definition updatePrompt :: "pane \<Rightarrow> pane" where
  "updatePrompt s =
     (let p = promptInfo s;
          promptSymbol = (if isRoot p then js ''#'' else js ''$'')
      in s\<lparr>currentPrompt :=
            username p @ js ''@'' @ hostname p @ js '':'' @ currentDir p @ promptSymbol @ js '' ''\<rparr>)"

text \<open>
  The display form that \<open>updateCurrentDirFromPath\<close> computes in its local \<open>currentDir\<close>
  (lines 547-571), as a function of the path, the user name and the root flag.
\<close>

definition normalize :: "jsstring \<Rightarrow> jsstring \<Rightarrow> bool \<Rightarrow> jsstring" where
  "normalize fullPath user root =
     (let dir = or_else (trim fullPath) (js ''~'')
      in if root then
           (if dir = js ''/root'' then js ''/root''
            else if startsWith dir (js ''/root/'') then dir
            else dir)
         else
           (if dir = js ''/home/'' @ user then js ''~''
            else if startsWith dir (js ''/home/'' @ user @ js ''/'')
              then replace dir (js ''/home/'' @ user) (js ''~'')
            else dir))"

text \<open>\<open>updateCurrentDirFromPath\<close> (lines 546-576).\<close>

definition updateCurrentDirFromPath :: "jsstring \<Rightarrow> pane \<Rightarrow> pane" where
  "updateCurrentDirFromPath fullPath s =
     (let p = promptInfo s;
          dir = normalize fullPath (username p) (isRoot p)
      in updatePrompt
           (s\<lparr>promptInfo := p\<lparr>currentDir := dir\<rparr>,
              currentWorkingDir := trim fullPath\<rparr>))"

section \<open>The execution and completion services\<close>

text \<open>
  A value that a failed call throws:
  \<^item> \<open>JsError m\<close>: an \<open>Error\<close> instance with the message \<open>m\<close>, a string as the \<open>Error\<close>
    constructor makes it;
  \<^item> \<open>JsString x\<close>: the string \<open>x\<close>;
  \<^item> \<open>JsOther mo\<close>: any other value whose \<open>message\<close> property is the string \<open>m\<close>
    (\<open>mo = Some m\<close>), or is missing or a falsy value that is no string (\<open>mo = None\<close>);
    \<open>null\<close> and \<open>undefined\<close> are of this kind, read through \<open>error?.message\<close>;
  \<^item> \<open>JsOtherNoString\<close>: any other value whose \<open>message\<close> property is truthy and
    no string (a number, \<open>true\<close>, a plain object), so that it has no \<open>split\<close> method.
\<close>

datatype js_error =
  JsError jsstring | JsString jsstring | JsOther "jsstring option" | JsOtherNoString

datatype 'a outcome = Threw js_error | Returned 'a

text \<open>The argument of \<open>executeSshCommand\<close>: \<open>{ serverId, command, currentDir? }\<close>.\<close>

record exec_params =
  param_serverId :: jsstring
  param_command :: jsstring
  param_currentDir :: "jsstring option"

text \<open>
  The result of \<open>executeSshCommand\<close> as src/api/ssh.js documents it:
  \<open>{ output, exitCode, isInteractive, interactiveMessage?, newDir?, outputLines }\<close>
  (fields prefixed with \<open>res_\<close>).
\<close>

record exec_result =
  res_output :: jsstring
  res_exitCode :: int
  res_isInteractive :: bool
  res_interactiveMessage :: "jsstring option"
  res_newDir :: "jsstring option"
  res_outputLines :: "jsstring list"

text \<open>
  The properties of that object which hold a number, by property name: \<open>exitCode\<close> is the
  only one. \<open>None\<close> stands for a read that does not give a number (\<open>undefined\<close> for a name
  the object does not have).
\<close>

definition number_property :: "exec_result \<Rightarrow> string \<Rightarrow> int option" where
  "number_property r k = (if k = ''exitCode'' then Some (res_exitCode r) else None)"

text \<open>
  \<open>executeSshCommand\<close> (src/api/ssh.js, lines 81-103) hands the backend's result on as
  it is, and throws an \<open>Error\<close> with the backend's message when the backend fails. The
  service is not part of the pane: it is a parameter, any function from the argument to
  a result or a thrown value of any kind.
\<close>

type_synonym exec_service = "exec_params \<Rightarrow> exec_result outcome"

record complete_params =
  cparam_serverId :: jsstring
  cparam_input :: jsstring
  cparam_currentDir :: jsstring

record complete_result =
  res_completedInput :: "jsstring option"
  res_matches :: "jsstring list"
  res_shouldShowMatches :: bool

type_synonym complete_service = "complete_params \<Rightarrow> complete_result outcome"

text \<open>The value of an optional string when it is truthy (present and not empty).\<close>

definition if_truthy :: "jsstring option \<Rightarrow> jsstring option" where
  "if_truthy v = (case v of None \<Rightarrow> None | Some x \<Rightarrow> if x \<noteq> [] then Some x else None)"

section \<open>Command dispatch\<close>

definition warning_marker :: jsstring where
  "warning_marker = [35686, 21578, 58]"

definition generic_message :: jsstring where
  "generic_message = [25191, 34892, 21629, 20196, 22833, 36133]"

definition unknown_server :: jsstring where
  "unknown_server = [26410, 30693, 26381, 21153, 22120]"

text \<open>The argument that \<open>executeCommand\<close> sends (lines 410-414).\<close>

definition executeCommand_params :: "server \<Rightarrow> jsstring \<Rightarrow> pane \<Rightarrow> exec_params" where
  "executeCommand_params srv command s =
     \<lparr>param_serverId = server_id srv,
      param_command = command,
      param_currentDir = Some (or_else (currentWorkingDir s) (js ''~''))\<rparr>"

text \<open>
  The \<open>try\<close> block of \<open>executeCommand\<close> (lines 406-454): a thrown value leaves it as
  \<open>Inl\<close>. The line type of a normal result reads \<open>result.exit_code\<close>.
\<close>

definition executeCommand_try ::
  "exec_service \<Rightarrow> server \<Rightarrow> bool \<Rightarrow> jsstring \<Rightarrow> pane \<Rightarrow> js_error + pane" where
  "executeCommand_try exec srv isRecording command s =
     (case exec (executeCommand_params srv command s) of
        Threw e \<Rightarrow> Inl e
      | Returned result \<Rightarrow>
          if res_isInteractive result \<and> if_truthy (res_interactiveMessage result) \<noteq> None then
            Inr (s\<lparr>outputLines := outputLines s @
                   map (\<lambda>line. \<lparr>type = (if startsWith line warning_marker then Error else Output),
                                 content = line, prompt = []\<rparr>)
                       (res_outputLines result)\<rparr>)
          else
            (case if_truthy (res_newDir result) of
               Some newDir \<Rightarrow>
                 (let s1 = updateCurrentDirFromPath newDir s
                  in Inr (s1\<lparr>outputLines := outputLines s1 @
                               [\<lparr>type = Output, content = [], prompt = []\<rparr>]\<rparr>))
             | None \<Rightarrow>
                 (let s1 = (if isRecording
                            then s\<lparr>recorded := recorded s @ [RecordOutput (res_output result)]\<rparr>
                            else s)
                  in Inr (s1\<lparr>outputLines := outputLines s1 @
                               map (\<lambda>line. \<lparr>type = (if number_property result ''exit_code'' = Some 0
                                                      then Output else Error),
                                             content = line, prompt = []\<rparr>)
                                   (res_outputLines result)\<rparr>))))"

text \<open>
  The \<open>catch\<close> block of \<open>executeCommand\<close> (lines 455-474). \<open>errorMessage\<close> is the value of
  the variable of that name after the chain of tests (lines 457-464), \<open>None\<close> when that
  value is no string. On such a value \<open>errorMessage.split\<close> is no function: the handler
  itself throws a \<open>TypeError\<close>, before it has appended anything, which is \<open>None\<close> as the
  result of \<open>executeCommand_catch\<close>.
\<close>

definition serverName :: "server option \<Rightarrow> jsstring" where
  "serverName props_server =
     (case props_server of
        None \<Rightarrow> unknown_server
      | Some srv \<Rightarrow>
          (case if_truthy (server_name srv) of
             Some n \<Rightarrow> n
           | None \<Rightarrow> server_host srv @ js '':'' @ numberToString (server_port srv)))"

definition errorMessage :: "js_error \<Rightarrow> jsstring option" where
  "errorMessage e =
     (case e of
        JsError m \<Rightarrow> Some (or_else m generic_message)
      | JsString x \<Rightarrow> Some x
      | JsOther mo \<Rightarrow> (case if_truthy mo of Some m \<Rightarrow> Some m | None \<Rightarrow> Some generic_message)
      | JsOtherNoString \<Rightarrow> None)"

definition executeCommand_catch :: "server \<Rightarrow> js_error \<Rightarrow> pane \<Rightarrow> pane option" where
  "executeCommand_catch srv e s =
     (case errorMessage e of
        None \<Rightarrow> None
      | Some message \<Rightarrow>
          Some (s\<lparr>outputLines := outputLines s @
                  map (\<lambda>line. \<lparr>type = Error,
                                content = (if line \<noteq> []
                                           then serverName (Some srv) @ js '': '' @ line else []),
                                prompt = []\<rparr>)
                      (split_lines message)\<rparr>))"

text \<open>
  \<open>executeCommand\<close> (lines 405-475). The service throws before the \<open>try\<close> block has
  changed anything, so the handler starts from the state at the call. \<open>executeCommand\<close>
  is the state that the call leaves: when the handler itself throws, that is the state
  at the call, and \<open>executeCommand_rejects\<close> tells that the exception leaves the function
  (its promise is rejected, and \<open>handleCommand\<close>, which awaits it, ends there).
\<close>

definition executeCommand :: "exec_service \<Rightarrow> server \<Rightarrow> bool \<Rightarrow> jsstring \<Rightarrow> pane \<Rightarrow> pane" where
  "executeCommand exec srv isRecording command s =
     (case executeCommand_try exec srv isRecording command s of
        Inl e \<Rightarrow> (case executeCommand_catch srv e s of None \<Rightarrow> s | Some s' \<Rightarrow> s')
      | Inr s' \<Rightarrow> s')"

definition executeCommand_rejects ::
  "exec_service \<Rightarrow> server \<Rightarrow> bool \<Rightarrow> jsstring \<Rightarrow> pane \<Rightarrow> bool" where
  "executeCommand_rejects exec srv isRecording command s =
     (case executeCommand_try exec srv isRecording command s of
        Inl e \<Rightarrow> executeCommand_catch srv e s = None
      | Inr s' \<Rightarrow> False)"

text \<open>
  \<open>handleCommand\<close> (lines 368-403). \<open>handleCommand_submit\<close> is its part between the
  empty-input check and the call of \<open>executeCommand\<close> (lines 381-397).
\<close>

definition handleCommand_submit :: "bool \<Rightarrow> jsstring \<Rightarrow> pane \<Rightarrow> pane" where
  "handleCommand_submit isRecording command s =
     (let s1 = (if isRecording then s\<lparr>recorded := recorded s @ [RecordInput command]\<rparr> else s);
          s2 = s1\<lparr>commandHistory := commandHistory s1 @ [command]\<rparr>;
          s3 = s2\<lparr>historyIndex := int (length (commandHistory s2))\<rparr>;
          s4 = s3\<lparr>outputLines := outputLines s3 @
                   [\<lparr>type = Input, content = command, prompt = currentPrompt s3\<rparr>]\<rparr>
      in s4\<lparr>currentInput := []\<rparr>)"

definition handleCommand :: "exec_service \<Rightarrow> server \<Rightarrow> bool \<Rightarrow> pane \<Rightarrow> pane" where
  "handleCommand exec srv isRecording s =
     (let command = trim (currentInput s)
      in if command = [] then
           s\<lparr>outputLines := outputLines s @
                [\<lparr>type = Input, content = [], prompt = currentPrompt s\<rparr>],
             currentInput := []\<rparr>
         else executeCommand exec srv isRecording command
                (handleCommand_submit isRecording command s))"

section \<open>History navigation\<close>

text \<open>
  \<open>commandHistory.value[i]\<close>. An index outside the array reads \<open>undefined\<close>, which the
  input field shows as empty; no reachable state reads there.
\<close>

definition history_at :: "jsstring list \<Rightarrow> int \<Rightarrow> jsstring" where
  "history_at h i = (if 0 \<le> i \<and> i < int (length h) then h ! nat i else [])"

definition handleHistoryUp :: "pane \<Rightarrow> pane" where
  "handleHistoryUp s =
     (if length (commandHistory s) = 0 then s
      else if historyIndex s > 0 then
        (let s1 = s\<lparr>historyIndex := historyIndex s - 1\<rparr>
         in s1\<lparr>currentInput := history_at (commandHistory s1) (historyIndex s1)\<rparr>)
      else s)"

definition handleHistoryDown :: "pane \<Rightarrow> pane" where
  "handleHistoryDown s =
     (if historyIndex s < int (length (commandHistory s)) - 1 then
        (let s1 = s\<lparr>historyIndex := historyIndex s + 1\<rparr>
         in s1\<lparr>currentInput := history_at (commandHistory s1) (historyIndex s1)\<rparr>)
      else s\<lparr>historyIndex := int (length (commandHistory s)), currentInput := []\<rparr>)"

section \<open>Tab completion\<close>

text \<open>
  \<open>handleTabComplete\<close> (lines 507-539). \<open>handleTabComplete_params\<close> is the call it makes:
  none for an input that is empty after trimming.
\<close>

definition handleTabComplete_params :: "server \<Rightarrow> pane \<Rightarrow> complete_params option" where
  "handleTabComplete_params srv s =
     (let input = trim (currentInput s)
      in if input = [] then None
         else Some \<lparr>cparam_serverId = server_id srv,
                    cparam_input = input,
                    cparam_currentDir = or_else (currentWorkingDir s) (js ''~'')\<rparr>)"

definition handleTabComplete :: "complete_service \<Rightarrow> server \<Rightarrow> pane \<Rightarrow> pane" where
  "handleTabComplete complete srv s =
     (case handleTabComplete_params srv s of
        None \<Rightarrow> s
      | Some params \<Rightarrow>
          (case complete params of
             Threw e \<Rightarrow> s
           | Returned result \<Rightarrow>
               (case if_truthy (res_completedInput result) of
                  Some completedInput \<Rightarrow> s\<lparr>currentInput := completedInput\<rparr>
                | None \<Rightarrow>
                    if res_shouldShowMatches result \<and> length (res_matches result) > 0 then
                      s\<lparr>outputLines := outputLines s @
                           [\<lparr>type = Output, content = join (js ''  '') (res_matches result),
                             prompt = []\<rparr>]\<rparr>
                    else s)))"

definition clear :: "pane \<Rightarrow> pane" where
  "clear s = s\<lparr>outputLines := []\<rparr>"

section \<open>Prompt information\<close>

text \<open>
  \<open>fetchPromptInfo\<close> (lines 306-359). Its \<open>try\<close> block makes four calls in a row,
  \<open>whoami\<close>, \<open>hostname\<close>, \<open>id -u\<close> and \<open>pwd\<close>, each without a \<open>currentDir\<close>; the first one
  that throws leaves the block, before anything has been assigned.
\<close>

definition probe :: "server \<Rightarrow> string \<Rightarrow> exec_params" where
  "probe srv command =
     \<lparr>param_serverId = server_id srv, param_command = js command, param_currentDir = None\<rparr>"

definition fetchPromptInfo_try :: "exec_service \<Rightarrow> server \<Rightarrow> pane \<Rightarrow> js_error + pane" where
  "fetchPromptInfo_try exec srv s =
     (case exec (probe srv ''whoami'') of
        Threw e \<Rightarrow> Inl e
      | Returned userResult \<Rightarrow>
     (let username = or_else (trim (res_output userResult))
                       (or_else (server_username srv) (js ''user''))
      in case exec (probe srv ''hostname'') of
        Threw e \<Rightarrow> Inl e
      | Returned hostnameResult \<Rightarrow>
     (let hostname = or_else (trim (res_output hostnameResult))
                       (or_else (server_host srv) (js ''localhost''))
      in case exec (probe srv ''id -u'') of
        Threw e \<Rightarrow> Inl e
      | Returned idResult \<Rightarrow>
     (let userId = (case parseInt (trim (res_output idResult)) of
                      None \<Rightarrow> 1000
                    | Some n \<Rightarrow> if n = 0 then 1000 else n);
          isRoot = (userId = 0 \<or> toLowerCase username = js ''root'')
      in case exec (probe srv ''pwd'') of
        Threw e \<Rightarrow> Inl e
      | Returned pwdResult \<Rightarrow>
     (let fullPath = or_else (trim (res_output pwdResult)) (js ''~'')
      in Inr (updateCurrentDirFromPath fullPath
                (s\<lparr>promptInfo := \<lparr>username = username, hostname = hostname,
                                  isRoot = isRoot, currentDir = js ''~''\<rparr>\<rparr>)))))))"

definition fetchPromptInfo_catch :: "server \<Rightarrow> pane \<Rightarrow> pane" where
  "fetchPromptInfo_catch srv s =
     updatePrompt
       (s\<lparr>promptInfo := \<lparr>username = or_else (server_username srv) (js ''user''),
                         hostname = or_else (server_host srv) (js ''localhost''),
                         isRoot = False,
                         currentDir = js ''~''\<rparr>\<rparr>)"

definition fetchPromptInfo :: "exec_service \<Rightarrow> server \<Rightarrow> pane \<Rightarrow> pane" where
  "fetchPromptInfo exec srv s =
     (case fetchPromptInfo_try exec srv s of
        Inl e \<Rightarrow> fetchPromptInfo_catch srv s
      | Inr s' \<Rightarrow> s')"

section \<open>Connection changes\<close>

definition connected_to :: jsstring where
  "connected_to = [24050, 36830, 25509, 21040, 32]"

text \<open>The watcher of \<open>props.server.connected\<close> (lines 270-285), run with the new value.\<close>

definition watch_connected :: "exec_service \<Rightarrow> server \<Rightarrow> bool \<Rightarrow> pane \<Rightarrow> pane" where
  "watch_connected exec srv connected s =
     (if connected then
        fetchPromptInfo exec srv
          (s\<lparr>outputLines := outputLines s @
               [\<lparr>type = Output,
                 content = connected_to @ server_host srv @ js '':'' @ numberToString (server_port srv),
                 prompt = []\<rparr>]\<rparr>)
      else s\<lparr>currentPrompt := js ''$ '', promptInfo := default_promptInfo\<rparr>)"

text \<open>\<open>onMounted\<close> (lines 287-295).\<close>

definition onMounted :: "exec_service \<Rightarrow> server \<Rightarrow> pane \<Rightarrow> pane" where
  "onMounted exec srv s = (if server_connected srv then fetchPromptInfo exec srv s else s)"

section \<open>Reachable states\<close>

text \<open>
  The states of a pane: the initial one, and what the handlers of the template and the
  watcher make of a state, for any service and any props. Typing sets the input field
  (\<open>v-model\<close>). A submitted command awaits the service, and other handlers may run in
  between: \<open>pending\<close> is the state during the wait, \<open>response\<close> the rest of
  \<open>executeCommand\<close> running later; \<open>enter\<close> is the whole of \<open>handleCommand\<close> with
  nothing in between. Tab completion and the fetching of the prompt information, which
  await the service too, are taken as one step each.
\<close>

inductive reachable :: "pane \<Rightarrow> bool" where
  start: "reachable init_pane"
| mounted: "reachable s \<Longrightarrow> reachable (onMounted exec srv s)"
| typing: "reachable s \<Longrightarrow> reachable (s\<lparr>currentInput := v\<rparr>)"
| enter: "reachable s \<Longrightarrow> reachable (handleCommand exec srv isRecording s)"
| pending: "reachable s \<Longrightarrow> trim (currentInput s) \<noteq> [] \<Longrightarrow>
     reachable (handleCommand_submit isRecording (trim (currentInput s)) s)"
| response: "reachable s \<Longrightarrow> reachable (executeCommand exec srv isRecording command s)"
| up: "reachable s \<Longrightarrow> reachable (handleHistoryUp s)"
| down: "reachable s \<Longrightarrow> reachable (handleHistoryDown s)"
| tab: "reachable s \<Longrightarrow> reachable (handleTabComplete complete srv s)"
| watch: "reachable s \<Longrightarrow> reachable (watch_connected exec srv connected s)"
| cleared: "reachable s \<Longrightarrow> reachable (clear s)"

text \<open>
  What holds of the history in every state: the index lies between \<open>-1\<close> and the number
  of entries, it is \<open>-1\<close> only while there are no entries, and no entry is empty or made
  of white space only.
\<close>

definition history_ok :: "pane \<Rightarrow> bool" where
  "history_ok s \<longleftrightarrow>
     - 1 \<le> historyIndex s \<and> historyIndex s \<le> int (length (commandHistory s))
     \<and> (historyIndex s = - 1 \<longrightarrow> commandHistory s = [])
     \<and> (\<forall>c\<in>set (commandHistory s). c \<noteq> [] \<and> (\<exists>x\<in>set c. \<not> isWhiteSpace x))"

section \<open>Example values\<close>

text \<open>A session named \<open>prod-1\<close>, used in the examples below.\<close>

definition prod1 :: server where
  "prod1 =
     \<lparr>server_id = js ''srv-1'', server_name = Some (js ''prod-1''),
      server_host = js ''10.0.0.5'', server_port = 22,
      server_username = js ''alice'', server_connected = True\<rparr>"

text \<open>The same server without a name.\<close>

definition unnamed :: server where
  "unnamed = prod1\<lparr>server_name := None\<rparr>"

text \<open>A normal result of the service.\<close>

definition plain_result :: "jsstring \<Rightarrow> int \<Rightarrow> jsstring list \<Rightarrow> exec_result" where
  "plain_result out code lines =
     \<lparr>res_output = out, res_exitCode = code, res_isInteractive = False,
      res_interactiveMessage = None, res_newDir = None, res_outputLines = lines\<rparr>"

text \<open>A service that answers every command with an empty normal result.\<close>

definition silent :: exec_service where
  "silent p = Returned (plain_result [] 0 [])"

text \<open>
  A service that answers \<open>whoami\<close> with \<open>alice\<close> and fails on every other command, and
  one that answers the four probes for a user \<open>alice\<close> on \<open>box\<close> in \<open>/home/alice\<close>.
\<close>

definition whoami_only :: exec_service where
  "whoami_only p =
     (if param_command p = js ''whoami'' then Returned (plain_result (js ''alice'') 0 [js ''alice''])
      else Threw (JsError (js ''timeout'')))"

definition alice_at_home :: exec_service where
  "alice_at_home p =
     Returned (plain_result
       (if param_command p = js ''whoami'' then js ''alice''
        else if param_command p = js ''hostname'' then js ''box''
        else if param_command p = js ''id -u'' then js ''1000''
        else js ''/home/alice'') 0 [])"

section \<open>Facts about the string functions\<close>

lemma startsWith_append: "startsWith t (a @ b) \<Longrightarrow> startsWith t a"
proof -
  assume h: "startsWith t (a @ b)"
  have "take (length a) (take (length (a @ b)) t) = take (length a) (a @ b)"
    using h by (simp add: startsWith_def)
  then show ?thesis by (simp add: startsWith_def min_def)
qed

lemma replace_at_start: "startsWith t pat \<Longrightarrow> replace t pat rep = rep @ drop (length pat) t"
  by (cases t) (auto simp: startsWith_def)

lemma dropWhile_hd: "dropWhile P xs \<noteq> [] \<Longrightarrow> \<not> P (hd (dropWhile P xs))"
  by (induction xs) auto

lemma trim_keeps: "s \<noteq> [] \<Longrightarrow> \<not> isWhiteSpace (hd s) \<Longrightarrow> \<not> isWhiteSpace (last s) \<Longrightarrow> trim s = s"
proof -
  assume ne: "s \<noteq> []" and h: "\<not> isWhiteSpace (hd s)" and l: "\<not> isWhiteSpace (last s)"
  from ne h have a: "dropWhile isWhiteSpace s = s"
    by (cases s) auto
  from ne l have "dropWhile isWhiteSpace (rev s) = rev s"
    by (cases "rev s") (auto simp: hd_rev [symmetric])
  with a show ?thesis by (simp add: trim_def)
qed

lemma trim_nonblank:
  assumes "trim s \<noteq> []"
  shows "\<exists>c\<in>set (trim s). \<not> isWhiteSpace c"
proof -
  let ?r = "dropWhile isWhiteSpace (rev (dropWhile isWhiteSpace s))"
  from assms have ne: "?r \<noteq> []" by (simp add: trim_def)
  then have "\<not> isWhiteSpace (hd ?r)" by (rule dropWhile_hd)
  moreover from ne have "hd ?r \<in> set ?r" by simp
  ultimately show ?thesis by (auto simp: trim_def)
qed

section \<open>The display form of a directory\<close>

text \<open>
  C4 (as amended). \<open>normalize\<close> is a total function of the trimmed path \<open>t\<close>, which is
  \<open>~\<close> when the path is empty or blank: for root the result is \<open>t\<close>, never shortened
  (\<open>/root\<close> included); for another user \<open>/home/u\<close> gives \<open>~\<close>, a \<open>t\<close> that starts with
  \<open>/home/u/\<close> gives \<open>~\<close> followed by the rest of \<open>t\<close>, and any other \<open>t\<close> is returned as
  it is.
\<close>

theorem normalize_trimmed:
  "normalize p u root =
     (let t = (if trim p = [] then js ''~'' else trim p)
      in if root then t
         else if t = js ''/home/'' @ u then js ''~''
         else if startsWith t (js ''/home/'' @ u @ js ''/'')
           then js ''~'' @ drop (length (js ''/home/'' @ u)) t
         else t)"
proof (cases root)
  case True
  then show ?thesis
    by (simp add: normalize_def or_else_def Let_def)
next
  case False
  define t where "t = or_else (trim p) (js ''~'')"
  have t: "(if trim p = [] then js ''~'' else trim p) = t"
    by (simp add: or_else_def t_def)
  have r: "startsWith t (js ''/home/'' @ u @ js ''/'') \<Longrightarrow>
      replace t (js ''/home/'' @ u) (js ''~'') = js ''~'' @ drop (length (js ''/home/'' @ u)) t"
    using startsWith_append [of t "js ''/home/'' @ u" "js ''/''"] replace_at_start [of t]
    by simp
  have "normalize p u root =
     (if t = js ''/home/'' @ u then js ''~''
      else if startsWith t (js ''/home/'' @ u @ js ''/'')
        then replace t (js ''/home/'' @ u) (js ''~'')
      else t)"
    using False by (simp only: normalize_def t_def Let_def if_False)
  also have "\<dots> = (if t = js ''/home/'' @ u then js ''~''
      else if startsWith t (js ''/home/'' @ u @ js ''/'')
        then js ''~'' @ drop (length (js ''/home/'' @ u)) t
      else t)"
  proof (cases "startsWith t (js ''/home/'' @ u @ js ''/'')")
    case True
    with r have "replace t (js ''/home/'' @ u) (js ''~'') =
        js ''~'' @ drop (length (js ''/home/'' @ u)) t"
      by blast
    then show ?thesis by (simp only:)
  next
    case False
    then show ?thesis by (simp only: if_False)
  qed
  finally show ?thesis
    using False by (simp only: t Let_def if_False)
qed

text \<open>A user's project directory is shortened, and root's is not.\<close>

theorem normalize_trimmed_witness:
  "normalize (js ''/home/u/proj'') (js ''u'') False = js ''~/proj''
   \<and> normalize (js ''/root/app'') (js ''root'') True = js ''/root/app''"
proof -
  have a: "trim (js ''/home/u/proj'') = js ''/home/u/proj''"
    by (rule trim_keeps) (simp_all add: js_def isWhiteSpace_def)
  have b: "trim (js ''/root/app'') = js ''/root/app''"
    by (rule trim_keeps) (simp_all add: js_def isWhiteSpace_def)
  have "normalize (js ''/home/u/proj'') (js ''u'') False = js ''~/proj''"
    using normalize_trimmed [of "js ''/home/u/proj''" "js ''u''" False]
    by (simp add: a Let_def) (simp add: js_def startsWith_def)
  moreover have "normalize (js ''/root/app'') (js ''root'') True = js ''/root/app''"
    using normalize_trimmed [of "js ''/root/app''" "js ''root''" True]
    by (simp add: b Let_def) (simp add: js_def)
  ultimately show ?thesis by simp
qed

text \<open>
  The claim as stated, \<open>normalize(p, u, true) == p\<close> for every path \<open>p\<close>, fails for a path
  that ends in a line feed, as the raw output of \<open>pwd\<close> does: the result is trimmed.
\<close>

theorem normalize_root_counterexample:
  "normalize (js ''/root'' @ [10]) (js ''root'') True \<noteq> js ''/root'' @ [10]"
  by (simp add: normalize_def or_else_def trim_def isWhiteSpace_def js_def Let_def)

section \<open>Updating the location\<close>

text \<open>
  C3 (as amended). For every string \<open>fullPath\<close>, \<open>updateCurrentDirFromPath\<close> sets the
  tracked full directory to \<open>fullPath.trim()\<close>, the empty string included (a command
  dispatched from there is sent with \<open>~\<close> in place of an empty tracked directory), sets
  the displayed directory to the result of \<open>normalize\<close>, and renders the prompt again as
  \<open>username@hostname:displayDir\<close> followed by \<open>#\<close> for root and \<open>$\<close> otherwise, and a
  space. Nothing else changes.
\<close>

theorem updateCurrentDirFromPath_sets:
  "currentWorkingDir (updateCurrentDirFromPath fullPath s) = trim fullPath
   \<and> param_currentDir (executeCommand_params srv command (updateCurrentDirFromPath fullPath s))
       = Some (if trim fullPath = [] then js ''~'' else trim fullPath)
   \<and> promptInfo (updateCurrentDirFromPath fullPath s)
       = (promptInfo s)\<lparr>currentDir :=
            normalize fullPath (username (promptInfo s)) (isRoot (promptInfo s))\<rparr>
   \<and> currentPrompt (updateCurrentDirFromPath fullPath s)
       = username (promptInfo s) @ js ''@'' @ hostname (promptInfo s) @ js '':''
         @ normalize fullPath (username (promptInfo s)) (isRoot (promptInfo s))
         @ (if isRoot (promptInfo s) then js ''#'' else js ''$'') @ js '' ''
   \<and> outputLines (updateCurrentDirFromPath fullPath s) = outputLines s
   \<and> currentInput (updateCurrentDirFromPath fullPath s) = currentInput s
   \<and> commandHistory (updateCurrentDirFromPath fullPath s) = commandHistory s
   \<and> historyIndex (updateCurrentDirFromPath fullPath s) = historyIndex s
   \<and> recorded (updateCurrentDirFromPath fullPath s) = recorded s"
  by (simp add: updateCurrentDirFromPath_def updatePrompt_def executeCommand_params_def
      or_else_def Let_def)

text \<open>
  For \<open>alice\<close> on \<open>box\<close>, the path \<open>/home/alice\<close> followed by a line feed is tracked as
  \<open>/home/alice\<close> and displayed as \<open>~\<close>, in the prompt \<open>alice@box:~$\<close>.
\<close>

theorem updateCurrentDirFromPath_sets_witness:
  "currentWorkingDir
     (updateCurrentDirFromPath (js ''/home/alice'' @ [10])
        (init_pane\<lparr>promptInfo := \<lparr>username = js ''alice'', hostname = js ''box'',
                                  isRoot = False, currentDir = js ''/tmp''\<rparr>\<rparr>))
     = js ''/home/alice''
   \<and> currentPrompt
     (updateCurrentDirFromPath (js ''/home/alice'' @ [10])
        (init_pane\<lparr>promptInfo := \<lparr>username = js ''alice'', hostname = js ''box'',
                                  isRoot = False, currentDir = js ''/tmp''\<rparr>\<rparr>))
     = js ''alice@box:~$ ''"
proof -
  let ?s = "init_pane\<lparr>promptInfo := \<lparr>username = js ''alice'', hostname = js ''box'',
                                     isRoot = False, currentDir = js ''/tmp''\<rparr>\<rparr>"
  have t: "trim (js ''/home/alice'' @ [10]) = js ''/home/alice''"
    by (simp add: trim_def isWhiteSpace_def js_def)
  have n: "normalize (js ''/home/alice'' @ [10]) (js ''alice'') False = js ''~''"
    by (simp add: normalize_def or_else_def t Let_def) (simp add: js_def)
  have cat: "js ''alice'' @ js ''@'' @ js ''box'' @ js '':'' @ js ''~'' @ js ''$'' @ js '' ''
      = js ''alice@box:~$ ''"
    by (simp add: js_def)
  note th = updateCurrentDirFromPath_sets [of "js ''/home/alice'' @ [10]" ?s prod1 "js ''ls''"]
  have "currentWorkingDir (updateCurrentDirFromPath (js ''/home/alice'' @ [10]) ?s)
      = js ''/home/alice''"
    using th [THEN conjunct1] by (simp add: t)
  moreover have "currentPrompt (updateCurrentDirFromPath (js ''/home/alice'' @ [10]) ?s)
      = js ''alice@box:~$ ''"
    using th [THEN conjunct2, THEN conjunct2, THEN conjunct2, THEN conjunct1]
    by (simp add: n cat)
  ultimately show ?thesis
    by (simp only: simp_thms)
qed

text \<open>
  The claim as stated fails for a blank path: the tracked directory becomes the empty
  string, not \<open>~\<close>.
\<close>

theorem updateCurrentDirFromPath_blank_counterexample:
  "currentWorkingDir (updateCurrentDirFromPath (js ''  '') init_pane) \<noteq> js ''~''"
  by (simp add: updateCurrentDirFromPath_def updatePrompt_def trim_def isWhiteSpace_def
      js_def Let_def)

section \<open>Responses of the execution service\<close>

lemma if_truthy_Some: "if_truthy v = Some x \<longleftrightarrow> v = Some x \<and> x \<noteq> []"
  by (cases v) (auto simp: if_truthy_def)

lemma if_truthy_None: "if_truthy v = None \<longleftrightarrow> v = None \<or> v = Some []"
  by (cases v) (auto simp: if_truthy_def)

text \<open>
  What \<open>split('\n')\<close> gives: the segments hold no line feed, joined with line feeds
  they are the string again, and there is one more of them than line feeds in the
  string. So they are the pieces between the line feeds, in order.
\<close>

lemma split_lines_not_Nil: "split_lines s \<noteq> []"
  by (induction s) (auto split: list.splits)

lemma join_Cons_Cons: "join sep ((c # x) # xs) = c # join sep (x # xs)"
  by (cases xs) simp_all

lemma join_Nil_Cons: "xs \<noteq> [] \<Longrightarrow> join sep ([] # xs) = sep @ join sep xs"
  by (cases xs) simp_all

lemma split_lines_join: "join [10] (split_lines s) = s"
proof (induction s)
  case Nil
  show ?case by simp
next
  case (Cons c cs)
  show ?case
  proof (cases "c = 10")
    case True
    then show ?thesis
      using Cons.IH split_lines_not_Nil [of cs] by (simp add: join_Nil_Cons)
  next
    case False
    obtain seg segs where s: "split_lines cs = seg # segs"
      using split_lines_not_Nil [of cs] by (cases "split_lines cs") auto
    with False Cons.IH show ?thesis
      by (simp add: join_Cons_Cons)
  qed
qed

lemma split_lines_no_line_feed: "seg \<in> set (split_lines s) \<Longrightarrow> 10 \<notin> set seg"
proof (induction s arbitrary: seg)
  case Nil
  then show ?case by simp
next
  case (Cons c cs)
  obtain x xs where s: "split_lines cs = x # xs"
    using split_lines_not_Nil [of cs] by (cases "split_lines cs") auto
  from Cons.IH [of x] s have x: "10 \<notin> set x"
    by simp
  from Cons.IH s have xs: "\<And>y. y \<in> set xs \<Longrightarrow> 10 \<notin> set y"
    by simp
  from Cons.prems s x xs Cons.IH show ?case
    by (cases "c = 10") auto
qed

lemma split_lines_length: "length (split_lines s) = Suc (count_list s 10)"
proof (induction s)
  case Nil
  show ?case by simp
next
  case (Cons c cs)
  obtain x xs where s: "split_lines cs = x # xs"
    using split_lines_not_Nil [of cs] by (cases "split_lines cs") auto
  with Cons.IH show ?case
    by (cases "c = 10") auto
qed

text \<open>
  What \<open>numberToString\<close> gives: decimal digits that read back as the number, at least
  one of them, and no leading zero but for zero itself.
\<close>

lemma numberToString_decimal:
  "numberToString n \<noteq> []
   \<and> (\<forall>c\<in>set (numberToString n). 48 \<le> c \<and> c \<le> 57)
   \<and> foldl (\<lambda>a c. 10 * a + (c - 48)) 0 (numberToString n) = n
   \<and> (hd (numberToString n) = 48 \<longrightarrow> n = 0)"
proof (induction n rule: numberToString.induct)
  case (1 n)
  show ?case
  proof (cases "n < 10")
    case True
    then have "numberToString n = [48 + n]"
      by (subst numberToString.simps) (simp del: numberToString.simps)
    with True show ?thesis
      by (simp del: numberToString.simps)
  next
    case False
    then have e: "numberToString n = numberToString (n div 10) @ [48 + n mod 10]"
      by (subst numberToString.simps) (simp del: numberToString.simps)
    from False have ih: "numberToString (n div 10) \<noteq> []
        \<and> (\<forall>c\<in>set (numberToString (n div 10)). 48 \<le> c \<and> c \<le> 57)
        \<and> foldl (\<lambda>a c. 10 * a + (c - 48)) 0 (numberToString (n div 10)) = n div 10
        \<and> (hd (numberToString (n div 10)) = 48 \<longrightarrow> n div 10 = 0)"
      by (rule "1.IH")
    from False have d: "n div 10 \<noteq> 0"
      by simp
    have m: "n mod 10 \<le> 9"
      by simp
    from ih d m show ?thesis
      unfolding e by (auto simp del: numberToString.simps simp: hd_append)
  qed
qed

text \<open>
  A thrown value whose message is truthy and no string: the handler throws, the
  exception leaves \<open>executeCommand\<close>, and no line is appended.
\<close>

lemma executeCommand_no_string_message:
  assumes "exec (executeCommand_params srv command s) = Threw JsOtherNoString"
  shows "executeCommand exec srv isRecording command s = s
     \<and> executeCommand_rejects exec srv isRecording command s"
  using assms
  by (simp add: executeCommand_def executeCommand_rejects_def executeCommand_try_def
      executeCommand_catch_def errorMessage_def)

text \<open>
  C5 (as amended). The execution service throws, during dispatch, an \<open>Error\<close>, a string,
  or another value whose \<open>message\<close> is a string or falsy. The message is resolved by a
  chain of four steps: the message of an \<open>Error\<close> when it is not empty, and else the
  generic message; a thrown string as it is, the empty one included; the \<open>message\<close> of
  another value when that is a string and not empty; and else the generic message. It
  is split at line feeds (the segments hold no line feed, and joined with line feeds
  they are the message), and one \<open>Error\<close> line per segment is appended, in order: a
  segment that is not empty after the session's display name and \<open>": "\<close>, an empty
  segment as a blank line. The display name is the session's name when it has one that
  is not empty, and else \<open>host:port\<close>, the port (an integer below \<open>2^53\<close>) in decimal.
  Nothing else changes, and nothing is thrown further.
\<close>

theorem executeCommand_failure:
  assumes "exec (executeCommand_params srv command s) = Threw e"
    and "(\<exists>m. e = JsError m \<and> message = (if m = [] then generic_message else m))
       \<or> e = JsString message
       \<or> (\<exists>m. e = JsOther (Some m) \<and> message = (if m = [] then generic_message else m))
       \<or> (e = JsOther None \<and> message = generic_message)"
    and "(\<exists>n. server_name srv = Some n \<and> n \<noteq> [] \<and> name = n)
       \<or> ((server_name srv = None \<or> server_name srv = Some [])
           \<and> server_port srv < 2 ^ 53
           \<and> name = server_host srv @ js '':'' @ numberToString (server_port srv))"
  shows "executeCommand exec srv isRecording command s =
       s\<lparr>outputLines := outputLines s @
          map (\<lambda>seg. \<lparr>type = Error,
                       content = (if seg = [] then [] else name @ js '': '' @ seg),
                       prompt = []\<rparr>)
              (split_lines message)\<rparr>
     \<and> \<not> executeCommand_rejects exec srv isRecording command s
     \<and> join [10] (split_lines message) = message
     \<and> (\<forall>seg\<in>set (split_lines message). 10 \<notin> set seg)
     \<and> length (split_lines message) = Suc (count_list message 10)"
proof -
  from assms(3) have name: "serverName (Some srv) = name"
    by (auto simp: serverName_def if_truthy_def)
  from assms(2) have msg: "errorMessage e = Some message"
    by (auto simp: errorMessage_def or_else_def if_truthy_def)
  have thrown: "executeCommand_try exec srv isRecording command s = Inl e"
    using assms(1) by (simp add: executeCommand_try_def)
  have handled: "executeCommand_catch srv e s =
      Some (s\<lparr>outputLines := outputLines s @
              map (\<lambda>seg. \<lparr>type = Error,
                           content = (if seg = [] then [] else name @ js '': '' @ seg),
                           prompt = []\<rparr>)
                  (split_lines message)\<rparr>)"
    by (simp add: executeCommand_catch_def msg name cong: if_cong)
  have "executeCommand exec srv isRecording command s =
       s\<lparr>outputLines := outputLines s @
          map (\<lambda>seg. \<lparr>type = Error,
                       content = (if seg = [] then [] else name @ js '': '' @ seg),
                       prompt = []\<rparr>)
              (split_lines message)\<rparr>"
    by (simp add: executeCommand_def thrown handled)
  moreover have "\<not> executeCommand_rejects exec srv isRecording command s"
    by (simp add: executeCommand_rejects_def thrown handled)
  moreover have "\<forall>seg\<in>set (split_lines message). 10 \<notin> set seg"
    using split_lines_no_line_feed by blast
  ultimately show ?thesis
    using split_lines_join [of message] split_lines_length [of message]
    by (simp only: simp_thms)
qed

text \<open>
  An \<open>Error\<close> with the message \<open>timeout\<close> on the session named \<open>prod-1\<close> gives exactly
  one \<open>Error\<close> line, \<open>prod-1: timeout\<close>. The thrown string \<open>refused\<close>, two line feeds,
  \<open>retry\<close> on the same server without a name, at port 22, gives three lines:
  \<open>10.0.0.5:22: refused\<close>, a blank one and \<open>10.0.0.5:22: retry\<close>.
\<close>

theorem executeCommand_failure_witness:
  "executeCommand (\<lambda>p. Threw (JsError (js ''timeout''))) prod1 False (js ''ls'') init_pane =
     init_pane\<lparr>outputLines := outputLines init_pane @
        [\<lparr>type = Error, content = js ''prod-1: timeout'', prompt = []\<rparr>]\<rparr>
   \<and> executeCommand (\<lambda>p. Threw (JsString (js ''refused'' @ [10, 10] @ js ''retry'')))
       unnamed True (js ''ls'') init_pane =
     init_pane\<lparr>outputLines := outputLines init_pane @
        [\<lparr>type = Error, content = js ''10.0.0.5:22: refused'', prompt = []\<rparr>,
         \<lparr>type = Error, content = [], prompt = []\<rparr>,
         \<lparr>type = Error, content = js ''10.0.0.5:22: retry'', prompt = []\<rparr>]\<rparr>"
proof -
  have a1: "(\<lambda>p. Threw (JsError (js ''timeout''))) (executeCommand_params prod1 (js ''ls'') init_pane)
      = Threw (JsError (js ''timeout''))"
    by simp
  have ne: "js ''timeout'' \<noteq> []" "js ''prod-1'' \<noteq> []"
    by (simp_all add: js_def)
  from ne have a2: "(\<exists>m. JsError (js ''timeout'') = JsError m
        \<and> js ''timeout'' = (if m = [] then generic_message else m))
      \<or> JsError (js ''timeout'') = JsString (js ''timeout'')
      \<or> (\<exists>m. JsError (js ''timeout'') = JsOther (Some m)
          \<and> js ''timeout'' = (if m = [] then generic_message else m))
      \<or> (JsError (js ''timeout'') = JsOther None \<and> js ''timeout'' = generic_message)"
    by simp
  from ne have a3: "(\<exists>n. server_name prod1 = Some n \<and> n \<noteq> [] \<and> js ''prod-1'' = n)
      \<or> ((server_name prod1 = None \<or> server_name prod1 = Some [])
          \<and> server_port prod1 < 2 ^ 53
          \<and> js ''prod-1'' = server_host prod1 @ js '':'' @ numberToString (server_port prod1))"
    by (simp add: prod1_def)
  have seg: "split_lines (js ''timeout'') = [js ''timeout'']"
    by (simp add: js_def)
  have cat: "js ''prod-1'' @ js '': '' @ js ''timeout'' = js ''prod-1: timeout''"
    by (simp add: js_def)
  note named = executeCommand_failure [OF a1 a2 a3, where isRecording = False]
  have first: "executeCommand (\<lambda>p. Threw (JsError (js ''timeout''))) prod1 False (js ''ls'') init_pane =
     init_pane\<lparr>outputLines := outputLines init_pane @
        [\<lparr>type = Error, content = js ''prod-1: timeout'', prompt = []\<rparr>]\<rparr>"
    using named [THEN conjunct1] by (simp add: seg ne cat)
  let ?m = "js ''refused'' @ [10, 10] @ js ''retry''"
  let ?n = "js ''10.0.0.5:22''"
  have b1: "(\<lambda>p. Threw (JsString ?m)) (executeCommand_params unnamed (js ''ls'') init_pane)
      = Threw (JsString ?m)"
    by simp
  have b2: "(\<exists>m. JsString ?m = JsError m \<and> ?m = (if m = [] then generic_message else m))
      \<or> JsString ?m = JsString ?m
      \<or> (\<exists>m. JsString ?m = JsOther (Some m) \<and> ?m = (if m = [] then generic_message else m))
      \<or> (JsString ?m = JsOther None \<and> ?m = generic_message)"
    by simp
  have port: "numberToString 22 = js ''22''"
    by (simp add: js_def)
  have b3: "(\<exists>n. server_name unnamed = Some n \<and> n \<noteq> [] \<and> ?n = n)
      \<or> ((server_name unnamed = None \<or> server_name unnamed = Some [])
          \<and> server_port unnamed < 2 ^ 53
          \<and> ?n = server_host unnamed @ js '':'' @ numberToString (server_port unnamed))"
    by (simp add: unnamed_def prod1_def port) (simp add: js_def)
  have segs: "split_lines ?m = [js ''refused'', [], js ''retry'']"
    by (simp add: js_def)
  have ne': "js ''refused'' \<noteq> []" "js ''retry'' \<noteq> []"
    by (simp_all add: js_def)
  have cat': "?n @ js '': '' @ js ''refused'' = js ''10.0.0.5:22: refused''"
    "?n @ js '': '' @ js ''retry'' = js ''10.0.0.5:22: retry''"
    by (simp_all add: js_def)
  note plain = executeCommand_failure [OF b1 b2 b3, where isRecording = True]
  have second: "executeCommand (\<lambda>p. Threw (JsString ?m)) unnamed True (js ''ls'') init_pane =
     init_pane\<lparr>outputLines := outputLines init_pane @
        [\<lparr>type = Error, content = js ''10.0.0.5:22: refused'', prompt = []\<rparr>,
         \<lparr>type = Error, content = [], prompt = []\<rparr>,
         \<lparr>type = Error, content = js ''10.0.0.5:22: retry'', prompt = []\<rparr>]\<rparr>"
    using plain [THEN conjunct1] by (simp only: segs) (simp add: ne' cat')
  from first second show ?thesis
    by (simp only: simp_thms)
qed

text \<open>
  The claim as stated, with a chain of three steps that ends in the generic message for
  what is neither an \<open>Error\<close> nor a string, fails for a thrown object with the message
  \<open>denied\<close>: the line is \<open>prod-1: denied\<close>, not the generic message.
\<close>

theorem executeCommand_object_message_counterexample:
  "outputLines
     (executeCommand (\<lambda>p. Threw (JsOther (Some (js ''denied'')))) prod1 False (js ''ls'') init_pane)
   \<noteq> outputLines init_pane @
       [\<lparr>type = Error, content = js ''prod-1: '' @ generic_message, prompt = []\<rparr>]"
  by (simp add: executeCommand_def executeCommand_try_def executeCommand_catch_def
      errorMessage_def if_truthy_def serverName_def prod1_def generic_message_def js_def)

lemma interactive_test:
  "(res_isInteractive r \<and> if_truthy (res_interactiveMessage r) \<noteq> None) =
   (res_isInteractive r \<and> (\<exists>m. res_interactiveMessage r = Some m \<and> m \<noteq> []))"
  by (cases "res_interactiveMessage r") (auto simp: if_truthy_def)

lemma executeCommand_try_plain:
  assumes "exec (executeCommand_params srv command s) = Returned r"
    and "\<not> (res_isInteractive r \<and> (\<exists>m. res_interactiveMessage r = Some m \<and> m \<noteq> []))"
  shows "executeCommand_try exec srv isRecording command s =
     (case if_truthy (res_newDir r) of
        Some newDir \<Rightarrow>
          (let s1 = updateCurrentDirFromPath newDir s
           in Inr (s1\<lparr>outputLines := outputLines s1 @
                        [\<lparr>type = Output, content = [], prompt = []\<rparr>]\<rparr>))
      | None \<Rightarrow>
          (let s1 = (if isRecording
                     then s\<lparr>recorded := recorded s @ [RecordOutput (res_output r)]\<rparr>
                     else s)
           in Inr (s1\<lparr>outputLines := outputLines s1 @
                        map (\<lambda>line. \<lparr>type = (if number_property r ''exit_code'' = Some 0
                                               then Output else Error),
                                      content = line, prompt = []\<rparr>)
                            (res_outputLines r)\<rparr>)))"
proof -
  from assms(2)
  have x: "(res_isInteractive r \<and> if_truthy (res_interactiveMessage r) \<noteq> None) = False"
    by (simp only: interactive_test)
  show ?thesis
    by (simp only: executeCommand_try_def assms(1) outcome.case x if_False)
qed

lemma executeCommand_try_interactive:
  assumes "exec (executeCommand_params srv command s) = Returned r"
    and "res_isInteractive r" and "res_interactiveMessage r = Some m" and "m \<noteq> []"
  shows "executeCommand_try exec srv isRecording command s =
     Inr (s\<lparr>outputLines := outputLines s @
            map (\<lambda>line. \<lparr>type = (if startsWith line warning_marker then Error else Output),
                          content = line, prompt = []\<rparr>)
                (res_outputLines r)\<rparr>)"
proof -
  from assms(2-4)
  have x: "(res_isInteractive r \<and> if_truthy (res_interactiveMessage r) \<noteq> None) = True"
    by (simp add: if_truthy_def)
  show ?thesis
    by (simp only: executeCommand_try_def assms(1) outcome.case x if_True)
qed

text \<open>
  C1. A normal result (no interactive signal, no directory change) has each of its
  \<open>outputLines\<close> appended as one line. The pane reads the exit code as
  \<open>result.exit_code\<close>, a property that the documented result, which has \<open>exitCode\<close>, does
  not hold: the comparison with zero fails for every result, and every line is appended
  as an \<open>Error\<close> line, whatever the exit code is.
\<close>

theorem executeCommand_normal_lines:
  assumes "exec (executeCommand_params srv command s) = Returned r"
    and "\<not> (res_isInteractive r \<and> (\<exists>m. res_interactiveMessage r = Some m \<and> m \<noteq> []))"
    and "res_newDir r = None \<or> res_newDir r = Some []"
  shows "outputLines (executeCommand exec srv isRecording command s) =
     outputLines s @
       map (\<lambda>line. \<lparr>type = Error, content = line, prompt = []\<rparr>) (res_outputLines r)"
proof -
  from assms(3) have d: "if_truthy (res_newDir r) = None"
    by (simp add: if_truthy_None)
  have n: "number_property r ''exit_code'' \<noteq> Some 0"
    by (simp add: number_property_def)
  show ?thesis
    by (simp add: executeCommand_def executeCommand_try_plain [of exec srv command s r isRecording, OF assms(1,2)] d n Let_def)
qed

text \<open>The output \<open>ok\<close> of a command that exits with code zero is shown as an \<open>Error\<close> line.\<close>

theorem executeCommand_normal_lines_witness:
  "outputLines (executeCommand (\<lambda>p. Returned (plain_result (js ''ok'') 0 [js ''ok'']))
       prod1 False (js ''true'') init_pane) =
     outputLines init_pane @ [\<lparr>type = Error, content = js ''ok'', prompt = []\<rparr>]"
  using executeCommand_normal_lines
    [of "\<lambda>p. Returned (plain_result (js ''ok'') 0 [js ''ok''])" prod1 "js ''true''" init_pane
        "plain_result (js ''ok'') 0 [js ''ok'']" False]
  by (simp add: plain_result_def)

text \<open>
  C2 (as amended). For a result whose \<open>newDir\<close> is present and not empty, and which is
  not an interactive signal, the pane updates the tracked full directory and the
  displayed directory from \<open>newDir\<close>, appends exactly one blank \<open>Output\<close> line and shows
  none of the result's \<open>outputLines\<close>; no record event is emitted.
\<close>

theorem executeCommand_newDir:
  assumes "exec (executeCommand_params srv command s) = Returned r"
    and "\<not> (res_isInteractive r \<and> (\<exists>m. res_interactiveMessage r = Some m \<and> m \<noteq> []))"
    and "res_newDir r = Some d" and "d \<noteq> []"
  shows "executeCommand exec srv isRecording command s =
       (updateCurrentDirFromPath d s)
         \<lparr>outputLines := outputLines s @ [\<lparr>type = Output, content = [], prompt = []\<rparr>]\<rparr>
     \<and> outputLines (executeCommand exec srv isRecording command s) =
         outputLines s @ [\<lparr>type = Output, content = [], prompt = []\<rparr>]
     \<and> currentWorkingDir (executeCommand exec srv isRecording command s) = trim d
     \<and> currentDir (promptInfo (executeCommand exec srv isRecording command s)) =
         normalize d (username (promptInfo s)) (isRoot (promptInfo s))
     \<and> recorded (executeCommand exec srv isRecording command s) = recorded s"
proof -
  from assms(3,4) have d: "if_truthy (res_newDir r) = Some d"
    by (simp add: if_truthy_Some)
  have e: "executeCommand exec srv isRecording command s =
       (updateCurrentDirFromPath d s)
         \<lparr>outputLines := outputLines (updateCurrentDirFromPath d s) @
            [\<lparr>type = Output, content = [], prompt = []\<rparr>]\<rparr>"
    by (simp add: executeCommand_def executeCommand_try_plain [of exec srv command s r isRecording, OF assms(1,2)] d Let_def)
  have u: "outputLines (updateCurrentDirFromPath d s) = outputLines s"
    "currentWorkingDir (updateCurrentDirFromPath d s) = trim d"
    "currentDir (promptInfo (updateCurrentDirFromPath d s)) =
       normalize d (username (promptInfo s)) (isRoot (promptInfo s))"
    "recorded (updateCurrentDirFromPath d s) = recorded s"
    by (simp_all add: updateCurrentDirFromPath_def updatePrompt_def Let_def)
  show ?thesis
    by (simp add: e u)
qed

text \<open>
  Root in \<open>/root/app\<close> runs \<open>pwd\<close>, and the service answers with \<open>newDir = /root/app\<close>:
  the displayed directory stays \<open>/root/app\<close>, and one blank line is appended.
\<close>

theorem executeCommand_newDir_witness:
  "currentWorkingDir
     (executeCommand
        (\<lambda>p. Returned ((plain_result [] 0 [js ''/root/app''])\<lparr>res_newDir := Some (js ''/root/app'')\<rparr>))
        prod1 True (js ''pwd'')
        (init_pane\<lparr>promptInfo := \<lparr>username = js ''root'', hostname = js ''box'', isRoot = True,
                                  currentDir = js ''/root/app''\<rparr>\<rparr>)) = js ''/root/app''
   \<and> currentDir (promptInfo
     (executeCommand
        (\<lambda>p. Returned ((plain_result [] 0 [js ''/root/app''])\<lparr>res_newDir := Some (js ''/root/app'')\<rparr>))
        prod1 True (js ''pwd'')
        (init_pane\<lparr>promptInfo := \<lparr>username = js ''root'', hostname = js ''box'', isRoot = True,
                                  currentDir = js ''/root/app''\<rparr>\<rparr>))) = js ''/root/app''
   \<and> outputLines
     (executeCommand
        (\<lambda>p. Returned ((plain_result [] 0 [js ''/root/app''])\<lparr>res_newDir := Some (js ''/root/app'')\<rparr>))
        prod1 True (js ''pwd'')
        (init_pane\<lparr>promptInfo := \<lparr>username = js ''root'', hostname = js ''box'', isRoot = True,
                                  currentDir = js ''/root/app''\<rparr>\<rparr>)) =
     outputLines init_pane @ [\<lparr>type = Output, content = [], prompt = []\<rparr>]"
proof -
  have t: "trim (js ''/root/app'') = js ''/root/app''"
    by (rule trim_keeps) (simp_all add: js_def isWhiteSpace_def)
  have n: "normalize (js ''/root/app'') (js ''root'') True = js ''/root/app''"
    by (simp add: normalize_def or_else_def t Let_def) (simp add: js_def)
  have ne: "js ''/root/app'' \<noteq> []"
    by (simp add: js_def)
  let ?r = "(plain_result [] 0 [js ''/root/app''])\<lparr>res_newDir := Some (js ''/root/app'')\<rparr>"
  let ?s = "init_pane\<lparr>promptInfo := \<lparr>username = js ''root'', hostname = js ''box'', isRoot = True,
                                    currentDir = js ''/root/app''\<rparr>\<rparr>"
  have a: "(\<lambda>p. Returned ?r) (executeCommand_params prod1 (js ''pwd'') ?s) = Returned ?r"
    by simp
  have b: "\<not> (res_isInteractive ?r \<and> (\<exists>m. res_interactiveMessage ?r = Some m \<and> m \<noteq> []))"
    by (simp add: plain_result_def)
  have c: "res_newDir ?r = Some (js ''/root/app'')"
    by simp
  note th = executeCommand_newDir [OF a b c ne, where isRecording = True]
  from th [THEN conjunct2] show ?thesis
    by (simp add: t n)
qed

text \<open>
  The claim as stated fails for a result whose \<open>newDir\<close> is present and empty: the pane
  takes it for a normal result and shows its \<open>outputLines\<close>.
\<close>

theorem executeCommand_empty_newDir_counterexample:
  "outputLines
     (executeCommand
        (\<lambda>p. Returned ((plain_result (js ''/tmp'') 0 [js ''/tmp''])\<lparr>res_newDir := Some []\<rparr>))
        prod1 False (js ''pwd'') init_pane) \<noteq>
     outputLines init_pane @ [\<lparr>type = Output, content = [], prompt = []\<rparr>]"
  by (simp add: executeCommand_def executeCommand_try_def plain_result_def if_truthy_def
      number_property_def Let_def init_pane_def)

text \<open>
  C8 (as amended). For a result that is an interactive signal, \<open>isInteractive\<close> true and
  \<open>interactiveMessage\<close> present and not empty, the tracked full directory and the
  displayed directory stay as they are, each of the \<open>outputLines\<close> is appended as an
  \<open>Error\<close> line when it starts with the warning marker and as an \<open>Output\<close> line
  otherwise, and no record event is emitted, also while recording.
\<close>

theorem executeCommand_interactive:
  assumes "exec (executeCommand_params srv command s) = Returned r"
    and "res_isInteractive r" and "res_interactiveMessage r = Some m" and "m \<noteq> []"
  shows "executeCommand exec srv isRecording command s =
       s\<lparr>outputLines := outputLines s @
          map (\<lambda>line. \<lparr>type = (if startsWith line warning_marker then Error else Output),
                        content = line, prompt = []\<rparr>)
              (res_outputLines r)\<rparr>
     \<and> currentWorkingDir (executeCommand exec srv isRecording command s) = currentWorkingDir s
     \<and> promptInfo (executeCommand exec srv isRecording command s) = promptInfo s
     \<and> currentPrompt (executeCommand exec srv isRecording command s) = currentPrompt s
     \<and> recorded (executeCommand exec srv isRecording command s) = recorded s"
  by (simp add: executeCommand_def
      executeCommand_try_interactive [of exec srv command s r m isRecording, OF assms])

text \<open>
  \<open>vim\<close> is answered with a warning and a hint, and with a \<open>newDir\<close> that is not looked
  at: the warning becomes an \<open>Error\<close> line, the hint an \<open>Output\<close> line, and the directory
  and the record stay.
\<close>

theorem executeCommand_interactive_witness:
  "executeCommand
     (\<lambda>p. Returned \<lparr>res_output = [], res_exitCode = 0, res_isInteractive = True,
                      res_interactiveMessage = Some (js ''no tty''),
                      res_newDir = Some (js ''/tmp''),
                      res_outputLines = [warning_marker @ js '' vim'', js ''use cat'']\<rparr>)
     prod1 True (js ''vim'') init_pane =
   init_pane\<lparr>outputLines := outputLines init_pane @
     [\<lparr>type = Error, content = warning_marker @ js '' vim'', prompt = []\<rparr>,
      \<lparr>type = Output, content = js ''use cat'', prompt = []\<rparr>]\<rparr>
   \<and> currentWorkingDir (executeCommand
     (\<lambda>p. Returned \<lparr>res_output = [], res_exitCode = 0, res_isInteractive = True,
                      res_interactiveMessage = Some (js ''no tty''),
                      res_newDir = Some (js ''/tmp''),
                      res_outputLines = [warning_marker @ js '' vim'', js ''use cat'']\<rparr>)
     prod1 True (js ''vim'') init_pane) = js ''~''
   \<and> recorded (executeCommand
     (\<lambda>p. Returned \<lparr>res_output = [], res_exitCode = 0, res_isInteractive = True,
                      res_interactiveMessage = Some (js ''no tty''),
                      res_newDir = Some (js ''/tmp''),
                      res_outputLines = [warning_marker @ js '' vim'', js ''use cat'']\<rparr>)
     prod1 True (js ''vim'') init_pane) = []"
proof -
  let ?r = "\<lparr>res_output = [], res_exitCode = 0, res_isInteractive = True,
             res_interactiveMessage = Some (js ''no tty''),
             res_newDir = Some (js ''/tmp''),
             res_outputLines = [warning_marker @ js '' vim'', js ''use cat'']\<rparr>"
  have a: "(\<lambda>p. Returned ?r) (executeCommand_params prod1 (js ''vim'') init_pane) = Returned ?r"
    by simp
  have b: "res_isInteractive ?r"
    by simp
  have c: "res_interactiveMessage ?r = Some (js ''no tty'')"
    by simp
  have d: "js ''no tty'' \<noteq> []"
    by (simp add: js_def)
  have w: "startsWith (warning_marker @ js '' vim'') warning_marker"
    "\<not> startsWith (js ''use cat'') warning_marker"
    by (simp_all add: startsWith_def warning_marker_def js_def)
  note th = executeCommand_interactive [OF a b c d, where isRecording = True]
  have "executeCommand (\<lambda>p. Returned ?r) prod1 True (js ''vim'') init_pane =
      init_pane\<lparr>outputLines := outputLines init_pane @
        [\<lparr>type = Error, content = warning_marker @ js '' vim'', prompt = []\<rparr>,
         \<lparr>type = Output, content = js ''use cat'', prompt = []\<rparr>]\<rparr>"
    using th [THEN conjunct1] by (simp add: w)
  moreover have "currentWorkingDir (executeCommand (\<lambda>p. Returned ?r) prod1 True (js ''vim'') init_pane)
      = js ''~''"
    using th [THEN conjunct2, THEN conjunct1] by (simp add: init_pane_def)
  moreover have "recorded (executeCommand (\<lambda>p. Returned ?r) prod1 True (js ''vim'') init_pane) = []"
    using th [THEN conjunct2, THEN conjunct2, THEN conjunct2, THEN conjunct2]
    by (simp add: init_pane_def)
  ultimately show ?thesis
    by (simp only: simp_thms)
qed

text \<open>
  The claim as stated fails for a result with \<open>isInteractive\<close> true and an
  \<open>interactiveMessage\<close> that is present and empty: the pane goes on to the directory
  change and moves the tracked directory.
\<close>

theorem executeCommand_empty_message_counterexample:
  "currentWorkingDir
     (executeCommand
        (\<lambda>p. Returned \<lparr>res_output = [], res_exitCode = 0, res_isInteractive = True,
                         res_interactiveMessage = Some [],
                         res_newDir = Some (js ''/tmp''),
                         res_outputLines = []\<rparr>)
        prod1 False (js ''vim'') init_pane) \<noteq> currentWorkingDir init_pane"
  by (simp add: executeCommand_def executeCommand_try_def if_truthy_def
      updateCurrentDirFromPath_def updatePrompt_def trim_def isWhiteSpace_def
      js_def Let_def init_pane_def)

section \<open>Tab completion\<close>

text \<open>
  C6 (as amended). A completion request whose input is empty after trimming makes no
  call and changes nothing. Otherwise the service is called with the trimmed input, and
  for every result: if \<open>completedInput\<close> is present and not empty, the edit buffer is
  replaced with it and no match list is printed, whatever \<open>matches\<close> holds; otherwise
  (\<open>completedInput\<close> missing or empty), if \<open>shouldShowMatches\<close> holds and \<open>matches\<close> is not
  empty, exactly one \<open>Output\<close> line that joins the matches with two spaces is appended;
  otherwise nothing changes. A failure of the service changes nothing.
\<close>

theorem handleTabComplete_cases:
  "(trim (currentInput s) = [] \<longrightarrow>
      handleTabComplete_params srv s = None \<and> handleTabComplete complete srv s = s)
   \<and> (trim (currentInput s) \<noteq> [] \<longrightarrow>
      (let params = \<lparr>cparam_serverId = server_id srv,
                      cparam_input = trim (currentInput s),
                      cparam_currentDir =
                        (if currentWorkingDir s = [] then js ''~'' else currentWorkingDir s)\<rparr>
       in handleTabComplete_params srv s = Some params
          \<and> (\<forall>e. complete params = Threw e \<longrightarrow> handleTabComplete complete srv s = s)
          \<and> (\<forall>r. complete params = Returned r \<longrightarrow>
                (\<forall>c. res_completedInput r = Some c \<and> c \<noteq> [] \<longrightarrow>
                   handleTabComplete complete srv s = s\<lparr>currentInput := c\<rparr>)
                \<and> ((res_completedInput r = None \<or> res_completedInput r = Some [])
                     \<and> res_shouldShowMatches r \<and> res_matches r \<noteq> [] \<longrightarrow>
                   handleTabComplete complete srv s =
                     s\<lparr>outputLines := outputLines s @
                          [\<lparr>type = Output, content = join (js ''  '') (res_matches r),
                            prompt = []\<rparr>]\<rparr>)
                \<and> ((res_completedInput r = None \<or> res_completedInput r = Some [])
                     \<and> \<not> (res_shouldShowMatches r \<and> res_matches r \<noteq> []) \<longrightarrow>
                   handleTabComplete complete srv s = s))))"
proof (cases "trim (currentInput s) = []")
  case True
  then show ?thesis
    by (simp add: handleTabComplete_def handleTabComplete_params_def)
next
  case False
  define params where "params =
     \<lparr>cparam_serverId = server_id srv, cparam_input = trim (currentInput s),
      cparam_currentDir = (if currentWorkingDir s = [] then js ''~'' else currentWorkingDir s)\<rparr>"
  have p: "handleTabComplete_params srv s = Some params"
    using False by (simp add: handleTabComplete_params_def params_def or_else_def)
  have t: "complete params = Threw e \<Longrightarrow> handleTabComplete complete srv s = s" for e
    by (simp add: handleTabComplete_def p)
  have r1: "handleTabComplete complete srv s = s\<lparr>currentInput := c\<rparr>"
    if "complete params = Returned r" "res_completedInput r = Some c" "c \<noteq> []" for r c
    using that by (simp add: handleTabComplete_def p if_truthy_def)
  have n: "if_truthy (res_completedInput r) = None"
    if "res_completedInput r = None \<or> res_completedInput r = Some []" for r :: complete_result
    using that by (simp add: if_truthy_None)
  have r2: "handleTabComplete complete srv s =
      s\<lparr>outputLines := outputLines s @
           [\<lparr>type = Output, content = join (js ''  '') (res_matches r), prompt = []\<rparr>]\<rparr>"
    if "complete params = Returned r"
      "res_completedInput r = None \<or> res_completedInput r = Some []"
      "res_shouldShowMatches r" "res_matches r \<noteq> []" for r
    using that(1,3,4) n [OF that(2)] by (simp add: handleTabComplete_def p)
  have r3: "handleTabComplete complete srv s = s"
    if "complete params = Returned r"
      "res_completedInput r = None \<or> res_completedInput r = Some []"
      "\<not> (res_shouldShowMatches r \<and> res_matches r \<noteq> [])" for r
    using that(1,3) n [OF that(2)] by (auto simp add: handleTabComplete_def p)
  from False p t r1 r2 r3 show ?thesis
    unfolding Let_def params_def [symmetric] by blast
qed

text \<open>
  With \<open>ca\<close> in the edit buffer: a result with \<open>completedInput\<close> and two matches replaces
  the buffer and prints nothing; the two matches alone are printed as one line; and an
  empty buffer makes no call.
\<close>

theorem handleTabComplete_cases_witness:
  "handleTabComplete
     (\<lambda>p. Returned \<lparr>res_completedInput = Some (js ''cat ''),
                      res_matches = [js ''cat'', js ''cal''], res_shouldShowMatches = True\<rparr>)
     prod1 (init_pane\<lparr>currentInput := js ''ca''\<rparr>) =
   init_pane\<lparr>currentInput := js ''cat ''\<rparr>
   \<and> handleTabComplete
     (\<lambda>p. Returned \<lparr>res_completedInput = None,
                      res_matches = [js ''cat'', js ''cal''], res_shouldShowMatches = True\<rparr>)
     prod1 (init_pane\<lparr>currentInput := js ''ca''\<rparr>) =
   init_pane\<lparr>currentInput := js ''ca'',
             outputLines := outputLines init_pane @
               [\<lparr>type = Output, content = js ''cat  cal'', prompt = []\<rparr>]\<rparr>
   \<and> handleTabComplete_params prod1 init_pane = None
   \<and> handleTabComplete (\<lambda>p. Threw (JsString [])) prod1 init_pane = init_pane"
proof -
  let ?s = "init_pane\<lparr>currentInput := js ''ca''\<rparr>"
  have ne: "trim (currentInput ?s) \<noteq> []" "js ''cat '' \<noteq> []"
    by (simp_all add: trim_def isWhiteSpace_def js_def)
  have e: "trim (currentInput init_pane) = []"
    by (simp add: init_pane_def trim_def)
  have j: "js ''cat'' @ js ''  '' @ js ''cal'' = js ''cat  cal''"
    by (simp add: js_def)
  have "handleTabComplete
     (\<lambda>p. Returned \<lparr>res_completedInput = Some (js ''cat ''),
                      res_matches = [js ''cat'', js ''cal''], res_shouldShowMatches = True\<rparr>)
     prod1 ?s = init_pane\<lparr>currentInput := js ''cat ''\<rparr>"
    using handleTabComplete_cases [of ?s prod1
      "\<lambda>p. Returned \<lparr>res_completedInput = Some (js ''cat ''),
                      res_matches = [js ''cat'', js ''cal''], res_shouldShowMatches = True\<rparr>"] ne
    by (simp add: Let_def)
  moreover have "handleTabComplete
     (\<lambda>p. Returned \<lparr>res_completedInput = None,
                      res_matches = [js ''cat'', js ''cal''], res_shouldShowMatches = True\<rparr>)
     prod1 ?s =
     init_pane\<lparr>currentInput := js ''ca'',
               outputLines := outputLines init_pane @
                 [\<lparr>type = Output, content = js ''cat  cal'', prompt = []\<rparr>]\<rparr>"
    using handleTabComplete_cases [of ?s prod1
      "\<lambda>p. Returned \<lparr>res_completedInput = None,
                      res_matches = [js ''cat'', js ''cal''], res_shouldShowMatches = True\<rparr>"] ne
    by (simp add: Let_def j)
  moreover have "handleTabComplete_params prod1 init_pane = None
      \<and> handleTabComplete (\<lambda>p. Threw (JsString [])) prod1 init_pane = init_pane"
    using handleTabComplete_cases [of init_pane prod1 "\<lambda>p. Threw (JsString [])"] e
    by simp
  ultimately show ?thesis
    by (simp only: simp_thms)
qed

text \<open>
  The claim as stated fails for a \<open>completedInput\<close> that is present and empty: the edit
  buffer keeps its text, and the match list is printed.
\<close>

theorem handleTabComplete_empty_completion_counterexample:
  "currentInput
     (handleTabComplete
        (\<lambda>p. Returned \<lparr>res_completedInput = Some [],
                         res_matches = [js ''cat'', js ''cal''], res_shouldShowMatches = True\<rparr>)
        prod1 (init_pane\<lparr>currentInput := js ''ca''\<rparr>)) \<noteq> []
   \<and> outputLines
     (handleTabComplete
        (\<lambda>p. Returned \<lparr>res_completedInput = Some [],
                         res_matches = [js ''cat'', js ''cal''], res_shouldShowMatches = True\<rparr>)
        prod1 (init_pane\<lparr>currentInput := js ''ca''\<rparr>)) \<noteq> outputLines init_pane"
  by (simp add: handleTabComplete_def handleTabComplete_params_def if_truthy_def
      trim_def isWhiteSpace_def js_def Let_def init_pane_def)

section \<open>The command history\<close>

text \<open>Only submitting and the two arrow keys touch the history.\<close>

lemma updateCurrentDirFromPath_history:
  "commandHistory (updateCurrentDirFromPath d s) = commandHistory s"
  "historyIndex (updateCurrentDirFromPath d s) = historyIndex s"
  by (simp_all add: updateCurrentDirFromPath_def updatePrompt_def Let_def)

lemma executeCommand_history:
  "commandHistory (executeCommand exec srv isRecording command s) = commandHistory s"
  "historyIndex (executeCommand exec srv isRecording command s) = historyIndex s"
  by (simp_all add: executeCommand_def executeCommand_try_def executeCommand_catch_def
      updateCurrentDirFromPath_history Let_def split: outcome.splits option.splits)

lemma fetchPromptInfo_history:
  "commandHistory (fetchPromptInfo exec srv s) = commandHistory s"
  "historyIndex (fetchPromptInfo exec srv s) = historyIndex s"
  by (simp_all add: fetchPromptInfo_def fetchPromptInfo_try_def fetchPromptInfo_catch_def
      updateCurrentDirFromPath_history updatePrompt_def Let_def split: outcome.splits)

lemma handleTabComplete_history:
  "commandHistory (handleTabComplete complete srv s) = commandHistory s"
  "historyIndex (handleTabComplete complete srv s) = historyIndex s"
  by (simp_all add: handleTabComplete_def split: outcome.splits option.splits)

lemma watch_connected_history:
  "commandHistory (watch_connected exec srv connected s) = commandHistory s"
  "historyIndex (watch_connected exec srv connected s) = historyIndex s"
  by (simp_all add: watch_connected_def fetchPromptInfo_history)

lemma handleCommand_submit_history:
  "commandHistory (handleCommand_submit isRecording command s) = commandHistory s @ [command]"
  "historyIndex (handleCommand_submit isRecording command s) = int (length (commandHistory s)) + 1"
  by (simp_all add: handleCommand_submit_def Let_def)

lemma handleCommand_history:
  "commandHistory (handleCommand exec srv isRecording s) =
     (if trim (currentInput s) = [] then commandHistory s
      else commandHistory s @ [trim (currentInput s)])"
  "historyIndex (handleCommand exec srv isRecording s) =
     (if trim (currentInput s) = [] then historyIndex s
      else int (length (commandHistory s)) + 1)"
  by (simp_all add: handleCommand_def executeCommand_history handleCommand_submit_history Let_def)

lemma history_ok_submit:
  assumes "history_ok s" and "trim (currentInput s) \<noteq> []"
  shows "history_ok (handleCommand_submit isRecording (trim (currentInput s)) s)"
  using assms trim_nonblank [OF assms(2)]
  by (auto simp: history_ok_def handleCommand_submit_history)

lemma history_ok_up: "history_ok s \<Longrightarrow> history_ok (handleHistoryUp s)"
  by (auto simp: history_ok_def handleHistoryUp_def Let_def)

lemma history_ok_down: "history_ok s \<Longrightarrow> history_ok (handleHistoryDown s)"
  by (auto simp: history_ok_def handleHistoryDown_def Let_def)

lemma history_ok_frame:
  "commandHistory s' = commandHistory s \<Longrightarrow> historyIndex s' = historyIndex s \<Longrightarrow>
   history_ok s \<Longrightarrow> history_ok s'"
  by (simp add: history_ok_def)

lemma history_ok_handleCommand:
  assumes "history_ok s"
  shows "history_ok (handleCommand exec srv isRecording s)"
proof (cases "trim (currentInput s) = []")
  case True
  then show ?thesis
    using assms by (simp add: history_ok_def handleCommand_history)
next
  case False
  have "history_ok (handleCommand_submit isRecording (trim (currentInput s)) s)"
    using assms False by (rule history_ok_submit)
  then have "history_ok (executeCommand exec srv isRecording (trim (currentInput s))
      (handleCommand_submit isRecording (trim (currentInput s)) s))"
    by (rule history_ok_frame [rotated 2]) (simp_all add: executeCommand_history)
  with False show ?thesis
    by (simp add: handleCommand_def Let_def)
qed

lemma reachable_history_ok: "reachable s \<Longrightarrow> history_ok s"
proof (induction rule: reachable.induct)
  case start
  show ?case by (simp add: history_ok_def init_pane_def)
next
  case (mounted s exec srv)
  then show ?case
    by (simp add: history_ok_def onMounted_def fetchPromptInfo_history)
next
  case (typing s v)
  then show ?case by (simp add: history_ok_def)
next
  case (enter s exec srv isRecording)
  then show ?case by (simp add: history_ok_handleCommand)
next
  case (pending s isRecording)
  then show ?case by (simp add: history_ok_submit)
next
  case (response s exec srv isRecording command)
  then show ?case by (simp add: history_ok_def executeCommand_history)
next
  case (up s)
  then show ?case by (simp add: history_ok_up)
next
  case (down s)
  then show ?case by (simp add: history_ok_down)
next
  case (tab s complete srv)
  then show ?case by (simp add: history_ok_def handleTabComplete_history)
next
  case (watch s exec srv connected)
  then show ?case by (simp add: history_ok_def watch_connected_history)
next
  case (cleared s)
  then show ?case by (simp add: history_ok_def clear_def)
qed

text \<open>
  C7 (as amended). In every reachable state the history index is an integer between
  \<open>-1\<close> and the number of entries, and it is \<open>-1\<close>, its initial value, only while there
  are no entries; no entry is empty or made of white space only; right after the
  submission of a command that is not empty after trimming, the index equals the number
  of entries; and the submission of an empty input leaves the entries and the index as
  they are.
\<close>

theorem history_invariant:
  assumes "reachable s"
  shows "- 1 \<le> historyIndex s \<and> historyIndex s \<le> int (length (commandHistory s))
     \<and> (historyIndex s = - 1 \<longrightarrow> commandHistory s = [])
     \<and> (\<forall>c\<in>set (commandHistory s). c \<noteq> [] \<and> (\<exists>x\<in>set c. \<not> isWhiteSpace x))
     \<and> (trim (currentInput s) \<noteq> [] \<longrightarrow>
          commandHistory (handleCommand exec srv isRecording s) =
            commandHistory s @ [trim (currentInput s)]
          \<and> historyIndex (handleCommand exec srv isRecording s) =
            int (length (commandHistory (handleCommand exec srv isRecording s))))
     \<and> (trim (currentInput s) = [] \<longrightarrow>
          commandHistory (handleCommand exec srv isRecording s) = commandHistory s
          \<and> historyIndex (handleCommand exec srv isRecording s) = historyIndex s)"
proof -
  from assms have "history_ok s"
    by (rule reachable_history_ok)
  then show ?thesis
    by (simp add: history_ok_def handleCommand_history)
qed

text \<open>
  After \<open>ls\<close> has been typed and submitted, the history is \<open>[ls]\<close> and the index is 1;
  the state is reachable, and the submission of another \<open>ls\<close> from there gives index 2.
\<close>

theorem history_invariant_witness:
  "reachable (handleCommand silent prod1 False (init_pane\<lparr>currentInput := js ''ls''\<rparr>))
   \<and> commandHistory (handleCommand silent prod1 False (init_pane\<lparr>currentInput := js ''ls''\<rparr>))
       = [js ''ls'']
   \<and> historyIndex (handleCommand silent prod1 False (init_pane\<lparr>currentInput := js ''ls''\<rparr>)) = 1
   \<and> js ''ls'' \<noteq> [] \<and> (\<exists>x\<in>set (js ''ls''). \<not> isWhiteSpace x)"
proof -
  let ?s0 = "init_pane\<lparr>currentInput := js ''ls''\<rparr>"
  have r0: "reachable ?s0"
    by (rule reachable.typing) (rule reachable.start)
  have r1: "reachable (handleCommand silent prod1 False ?s0)"
    using r0 by (rule reachable.enter)
  have t: "trim (currentInput ?s0) = js ''ls''"
    by (simp add: trim_def isWhiteSpace_def js_def)
  have ne: "js ''ls'' \<noteq> []"
    by (simp add: js_def)
  have h0: "commandHistory ?s0 = []"
    by (simp add: init_pane_def)
  note a = history_invariant [OF r0, of silent prod1 False]
  note b = history_invariant [OF r1, of silent prod1 False]
  from a t ne h0
  have c: "commandHistory (handleCommand silent prod1 False ?s0) = [js ''ls'']"
    "historyIndex (handleCommand silent prod1 False ?s0) = 1"
    by simp_all
  from b c have "js ''ls'' \<noteq> [] \<and> (\<exists>x\<in>set (js ''ls''). \<not> isWhiteSpace x)"
    by simp
  with r1 c show ?thesis
    by simp
qed

text \<open>
  The claim as stated fails in the initial state, where the index is \<open>-1\<close>; and after
  \<open>ls\<close> was submitted, the up arrow pressed and the input field emptied, the submission
  of the empty input leaves the index at 0 with one entry.
\<close>

theorem history_cursor_counterexample:
  "reachable init_pane
   \<and> \<not> (0 \<le> historyIndex init_pane
        \<and> historyIndex init_pane \<le> int (length (commandHistory init_pane)))
   \<and> historyIndex
       (handleCommand silent prod1 False
          ((handleHistoryUp
              (handleCommand silent prod1 False (init_pane\<lparr>currentInput := js ''ls''\<rparr>)))
           \<lparr>currentInput := []\<rparr>))
     \<noteq> int (length (commandHistory
       (handleCommand silent prod1 False
          ((handleHistoryUp
              (handleCommand silent prod1 False (init_pane\<lparr>currentInput := js ''ls''\<rparr>)))
           \<lparr>currentInput := []\<rparr>))))"
proof -
  let ?s0 = "init_pane\<lparr>currentInput := js ''ls''\<rparr>"
  let ?s1 = "handleCommand silent prod1 False ?s0"
  let ?s2 = "(handleHistoryUp ?s1)\<lparr>currentInput := []\<rparr>"
  have t: "trim (currentInput ?s0) = js ''ls''"
    by (simp add: trim_def isWhiteSpace_def js_def)
  have ne: "js ''ls'' \<noteq> []"
    by (simp add: js_def)
  have s1: "commandHistory ?s1 = [js ''ls'']" "historyIndex ?s1 = 1"
    using t ne by (simp_all add: handleCommand_history init_pane_def)
  have s2: "commandHistory ?s2 = [js ''ls'']" "historyIndex ?s2 = 0" "currentInput ?s2 = []"
    using s1 by (simp_all add: handleHistoryUp_def Let_def)
  have e: "trim [] = []"
    by (simp add: trim_def)
  have "historyIndex (handleCommand silent prod1 False ?s2)
      \<noteq> int (length (commandHistory (handleCommand silent prod1 False ?s2)))"
    using s2 e by (simp add: handleCommand_history)
  moreover have "\<not> (0 \<le> historyIndex init_pane
        \<and> historyIndex init_pane \<le> int (length (commandHistory init_pane)))"
    by (simp add: init_pane_def)
  ultimately show ?thesis
    using reachable.start by simp
qed

section \<open>Fetching the prompt information\<close>

lemma fetchPromptInfo_try_failure:
  assumes "(\<exists>e. exec (probe srv ''whoami'') = Threw e) \<or> (\<exists>e. exec (probe srv ''hostname'') = Threw e)
      \<or> (\<exists>e. exec (probe srv ''id -u'') = Threw e) \<or> (\<exists>e. exec (probe srv ''pwd'') = Threw e)"
  shows "\<exists>e. fetchPromptInfo_try exec srv s = Inl e"
  using assms
  by (auto simp: fetchPromptInfo_try_def Let_def split: outcome.splits)

lemma fetchPromptInfo_try_success:
  assumes "exec (probe srv ''whoami'') = Returned userResult"
    and "exec (probe srv ''hostname'') = Returned hostnameResult"
    and "exec (probe srv ''id -u'') = Returned idResult"
    and "exec (probe srv ''pwd'') = Returned pwdResult"
  shows "fetchPromptInfo_try exec srv s =
     Inr (updateCurrentDirFromPath (or_else (trim (res_output pwdResult)) (js ''~''))
            (s\<lparr>promptInfo :=
                 \<lparr>username = or_else (trim (res_output userResult))
                               (or_else (server_username srv) (js ''user'')),
                  hostname = or_else (trim (res_output hostnameResult))
                               (or_else (server_host srv) (js ''localhost'')),
                  isRoot = (toLowerCase (or_else (trim (res_output userResult))
                               (or_else (server_username srv) (js ''user''))) = js ''root''),
                  currentDir = js ''~''\<rparr>\<rparr>))"
proof -
  have "(case parseInt (trim (res_output idResult)) of
           None \<Rightarrow> 1000 | Some n \<Rightarrow> if n = 0 then 1000 else n) \<noteq> (0::int)"
    by (simp split: option.splits)
  then show ?thesis
    using assms by (simp add: fetchPromptInfo_try_def Let_def)
qed

lemma fetchPromptInfo_prompt:
  "currentPrompt (fetchPromptInfo exec srv s) =
     username (promptInfo (fetchPromptInfo exec srv s)) @ js ''@''
     @ hostname (promptInfo (fetchPromptInfo exec srv s)) @ js '':''
     @ currentDir (promptInfo (fetchPromptInfo exec srv s))
     @ (if isRoot (promptInfo (fetchPromptInfo exec srv s)) then js ''#'' else js ''$'') @ js '' ''"
  by (simp add: fetchPromptInfo_def fetchPromptInfo_try_def fetchPromptInfo_catch_def
      updateCurrentDirFromPath_def updatePrompt_def Let_def split: outcome.splits)

text \<open>
  C9 (as amended). \<open>fetchPromptInfo\<close> never passes a failure of a probe on: it always
  ends in a state whose prompt is rendered from its prompt information. If any of the
  four remote calls fails, all values fall back together, whatever the earlier probes
  have answered: the user name to the server's user name, or \<open>user\<close> when that is empty,
  the host name to the server's host, or \<open>localhost\<close> when that is empty, the root flag
  to false and the displayed directory to \<open>~\<close>; nothing else changes, the tracked
  directory included.
\<close>

theorem fetchPromptInfo_failure:
  "currentPrompt (fetchPromptInfo exec srv s) =
     username (promptInfo (fetchPromptInfo exec srv s)) @ js ''@''
     @ hostname (promptInfo (fetchPromptInfo exec srv s)) @ js '':''
     @ currentDir (promptInfo (fetchPromptInfo exec srv s))
     @ (if isRoot (promptInfo (fetchPromptInfo exec srv s)) then js ''#'' else js ''$'') @ js '' ''
   \<and> ((\<exists>e. exec (probe srv ''whoami'') = Threw e) \<or> (\<exists>e. exec (probe srv ''hostname'') = Threw e)
        \<or> (\<exists>e. exec (probe srv ''id -u'') = Threw e) \<or> (\<exists>e. exec (probe srv ''pwd'') = Threw e)
      \<longrightarrow> fetchPromptInfo exec srv s =
          s\<lparr>promptInfo :=
               \<lparr>username = (if server_username srv = [] then js ''user'' else server_username srv),
                hostname = (if server_host srv = [] then js ''localhost'' else server_host srv),
                isRoot = False,
                currentDir = js ''~''\<rparr>,
            currentPrompt :=
              (if server_username srv = [] then js ''user'' else server_username srv) @ js ''@''
              @ (if server_host srv = [] then js ''localhost'' else server_host srv)
              @ js '':'' @ js ''~'' @ js ''$'' @ js '' ''\<rparr>)"
proof -
  have "fetchPromptInfo exec srv s =
          s\<lparr>promptInfo :=
               \<lparr>username = (if server_username srv = [] then js ''user'' else server_username srv),
                hostname = (if server_host srv = [] then js ''localhost'' else server_host srv),
                isRoot = False,
                currentDir = js ''~''\<rparr>,
            currentPrompt :=
              (if server_username srv = [] then js ''user'' else server_username srv) @ js ''@''
              @ (if server_host srv = [] then js ''localhost'' else server_host srv)
              @ js '':'' @ js ''~'' @ js ''$'' @ js '' ''\<rparr>"
    if "(\<exists>e. exec (probe srv ''whoami'') = Threw e) \<or> (\<exists>e. exec (probe srv ''hostname'') = Threw e)
        \<or> (\<exists>e. exec (probe srv ''id -u'') = Threw e) \<or> (\<exists>e. exec (probe srv ''pwd'') = Threw e)"
  proof -
    from that obtain e where "fetchPromptInfo_try exec srv s = Inl e"
      using fetchPromptInfo_try_failure by blast
    then show ?thesis
      by (simp add: fetchPromptInfo_def fetchPromptInfo_catch_def updatePrompt_def or_else_def Let_def)
  qed
  with fetchPromptInfo_prompt [of exec srv s] show ?thesis
    by blast
qed

text \<open>
  \<open>whoami\<close> answers \<open>alice\<close> and \<open>hostname\<close> fails, on a server whose user name is \<open>bob\<close>:
  the prompt is \<open>bob@10.0.0.5:~$\<close>, and the tracked directory stays.
\<close>

theorem fetchPromptInfo_failure_witness:
  "fetchPromptInfo whoami_only (prod1\<lparr>server_username := js ''bob''\<rparr>) init_pane =
     init_pane\<lparr>promptInfo := \<lparr>username = js ''bob'', hostname = js ''10.0.0.5'',
                               isRoot = False, currentDir = js ''~''\<rparr>,
               currentPrompt := js ''bob@10.0.0.5:~$ ''\<rparr>
   \<and> currentWorkingDir (fetchPromptInfo whoami_only (prod1\<lparr>server_username := js ''bob''\<rparr>) init_pane)
       = js ''~''"
proof -
  let ?srv = "prod1\<lparr>server_username := js ''bob''\<rparr>"
  have h: "whoami_only (probe ?srv ''hostname'') = Threw (JsError (js ''timeout''))"
    by (simp add: whoami_only_def probe_def js_def)
  have v: "server_username ?srv = js ''bob''" "server_host ?srv = js ''10.0.0.5''"
    by (simp_all add: prod1_def)
  have ne: "js ''bob'' \<noteq> []" "js ''10.0.0.5'' \<noteq> []"
    by (simp_all add: js_def)
  have cat: "js ''bob'' @ js ''@'' @ js ''10.0.0.5'' @ js '':'' @ js ''~'' @ js ''$'' @ js '' ''
      = js ''bob@10.0.0.5:~$ ''"
    by (simp add: js_def)
  from h have "(\<exists>e. whoami_only (probe ?srv ''whoami'') = Threw e)
      \<or> (\<exists>e. whoami_only (probe ?srv ''hostname'') = Threw e)
      \<or> (\<exists>e. whoami_only (probe ?srv ''id -u'') = Threw e)
      \<or> (\<exists>e. whoami_only (probe ?srv ''pwd'') = Threw e)"
    by blast
  with fetchPromptInfo_failure [of whoami_only ?srv init_pane]
  have "fetchPromptInfo whoami_only ?srv init_pane =
     init_pane\<lparr>promptInfo := \<lparr>username = js ''bob'', hostname = js ''10.0.0.5'',
                               isRoot = False, currentDir = js ''~''\<rparr>,
               currentPrompt := js ''bob@10.0.0.5:~$ ''\<rparr>"
    by (simp only: v ne cat if_False simp_thms)
  then show ?thesis
    by (simp add: init_pane_def)
qed

text \<open>
  The claim as stated, each probe falling back on its own, fails when \<open>whoami\<close> answers
  \<open>alice\<close> and \<open>hostname\<close> fails: the user name of the prompt is not \<open>alice\<close> but the
  server's, \<open>bob\<close>.
\<close>

theorem fetchPromptInfo_individual_counterexample:
  "whoami_only (probe (prod1\<lparr>server_username := js ''bob''\<rparr>) ''whoami'')
     = Returned (plain_result (js ''alice'') 0 [js ''alice''])
   \<and> username (promptInfo
       (fetchPromptInfo whoami_only (prod1\<lparr>server_username := js ''bob''\<rparr>) init_pane))
     \<noteq> js ''alice''"
  by (simp add: fetchPromptInfo_def fetchPromptInfo_try_def fetchPromptInfo_catch_def
      updatePrompt_def whoami_only_def probe_def or_else_def prod1_def js_def Let_def)

section \<open>Disconnecting and reconnecting\<close>

lemma dropWhile_last: "dropWhile P xs \<noteq> [] \<Longrightarrow> last (dropWhile P xs) = last xs"
  by (induction xs) (auto split: if_splits)

lemma trim_trim: "trim (trim s) = trim s"
proof (cases "trim s = []")
  case True
  have "trim [] = []"
    by (simp add: trim_def)
  with True show ?thesis
    by simp
next
  case False
  let ?a = "dropWhile isWhiteSpace s"
  let ?b = "dropWhile isWhiteSpace (rev ?a)"
  have t: "trim s = rev ?b"
    by (simp add: trim_def)
  from False have b: "?b \<noteq> []"
    by (simp add: trim_def)
  have a: "?a \<noteq> []"
  proof
    assume "?a = []"
    then have "?b = []"
      by (simp only: rev.simps dropWhile.simps)
    with b show False ..
  qed
  have "last (trim s) = hd ?b"
    using b by (simp add: t last_rev)
  moreover have "\<not> isWhiteSpace (hd ?b)"
    using b by (rule dropWhile_hd)
  ultimately have l: "\<not> isWhiteSpace (last (trim s))"
    by simp
  have "hd (trim s) = last ?b"
    using b by (simp add: t hd_rev)
  also have "\<dots> = last (rev ?a)"
    using b by (rule dropWhile_last)
  also have "\<dots> = hd ?a"
    using a by (simp add: last_rev)
  finally have "hd (trim s) = hd ?a" .
  moreover have "\<not> isWhiteSpace (hd ?a)"
    using a by (rule dropWhile_hd)
  ultimately have h: "\<not> isWhiteSpace (hd (trim s))"
    by simp
  from False h l show ?thesis
    by (rule trim_keeps)
qed

lemma trim_tilde: "trim (js ''~'') = js ''~''"
  by (simp add: trim_def isWhiteSpace_def js_def)

lemma fetch_failed_dir:
  assumes "(\<exists>e. exec (probe srv ''whoami'') = Threw e) \<or> (\<exists>e. exec (probe srv ''hostname'') = Threw e)
      \<or> (\<exists>e. exec (probe srv ''id -u'') = Threw e) \<or> (\<exists>e. exec (probe srv ''pwd'') = Threw e)"
  shows "currentWorkingDir (fetchPromptInfo exec srv s) = currentWorkingDir s"
proof -
  from assms obtain e where "fetchPromptInfo_try exec srv s = Inl e"
    using fetchPromptInfo_try_failure by blast
  then show ?thesis
    by (simp add: fetchPromptInfo_def fetchPromptInfo_catch_def updatePrompt_def Let_def)
qed

lemma fetch_answered_dir:
  assumes "exec (probe srv ''whoami'') = Returned userResult"
    and "exec (probe srv ''hostname'') = Returned hostnameResult"
    and "exec (probe srv ''id -u'') = Returned idResult"
    and "exec (probe srv ''pwd'') = Returned pwdResult"
  shows "currentWorkingDir (fetchPromptInfo exec srv s) =
     (if trim (res_output pwdResult) = [] then js ''~'' else trim (res_output pwdResult))"
  by (simp add: fetchPromptInfo_def
      fetchPromptInfo_try_success [of exec srv userResult hostnameResult idResult pwdResult s, OF assms]
      updateCurrentDirFromPath_def updatePrompt_def or_else_def trim_trim trim_tilde Let_def)

text \<open>
  C10 (as amended). When the connection is lost, the watcher sets the prompt to \<open>$\<close> and
  a space and the prompt information (user name, host name, root flag, displayed
  directory) to its defaults, and leaves everything else, the tracked full directory
  included. So a command that is dispatched from there (whatever the scroll-back holds
  by then, as while the probes of a reconnect are still awaited), or after a reconnect
  whose prompt information could not be fetched (a probe failed), is sent with the
  directory from before the disconnect as its \<open>currentDir\<close> (\<open>~\<close> in place of an empty
  one). A reconnect whose four probes are answered sets the tracked directory to the
  trimmed output of \<open>pwd\<close> (\<open>~\<close> when that is blank), and the next command is sent with
  that.
\<close>

theorem watch_connected_directory:
  "watch_connected exec srv False s =
     s\<lparr>currentPrompt := js ''$ '',
       promptInfo := \<lparr>username = [], hostname = [], isRoot = False, currentDir = js ''~''\<rparr>\<rparr>
   \<and> currentWorkingDir (watch_connected exec srv False s) = currentWorkingDir s
   \<and> param_currentDir (executeCommand_params srv' command
         ((watch_connected exec srv False s)\<lparr>outputLines := lines\<rparr>)) =
       Some (if currentWorkingDir s = [] then js ''~'' else currentWorkingDir s)
   \<and> ((\<exists>e. exec' (probe srv' ''whoami'') = Threw e) \<or> (\<exists>e. exec' (probe srv' ''hostname'') = Threw e)
        \<or> (\<exists>e. exec' (probe srv' ''id -u'') = Threw e) \<or> (\<exists>e. exec' (probe srv' ''pwd'') = Threw e)
      \<longrightarrow> param_currentDir (executeCommand_params srv' command
             (watch_connected exec' srv' True (watch_connected exec srv False s))) =
           Some (if currentWorkingDir s = [] then js ''~'' else currentWorkingDir s))
   \<and> (\<forall>userResult hostnameResult idResult pwdResult.
        exec' (probe srv' ''whoami'') = Returned userResult
        \<and> exec' (probe srv' ''hostname'') = Returned hostnameResult
        \<and> exec' (probe srv' ''id -u'') = Returned idResult
        \<and> exec' (probe srv' ''pwd'') = Returned pwdResult
      \<longrightarrow> param_currentDir (executeCommand_params srv' command
             (watch_connected exec' srv' True (watch_connected exec srv False s))) =
           Some (if trim (res_output pwdResult) = [] then js ''~''
                 else trim (res_output pwdResult)))"
proof -
  have off: "watch_connected exec srv False s =
     s\<lparr>currentPrompt := js ''$ '',
       promptInfo := \<lparr>username = [], hostname = [], isRoot = False, currentDir = js ''~''\<rparr>\<rparr>"
    by (simp add: watch_connected_def default_promptInfo_def)
  have send: "param_currentDir (executeCommand_params srv' command t) =
      Some (if currentWorkingDir t = [] then js ''~'' else currentWorkingDir t)" for t
    by (simp add: executeCommand_params_def or_else_def)
  have ne: "js ''~'' \<noteq> []"
    by (simp add: js_def)
  have failed: "currentWorkingDir (watch_connected exec' srv' True (watch_connected exec srv False s))
      = currentWorkingDir s"
    if "(\<exists>e. exec' (probe srv' ''whoami'') = Threw e) \<or> (\<exists>e. exec' (probe srv' ''hostname'') = Threw e)
        \<or> (\<exists>e. exec' (probe srv' ''id -u'') = Threw e) \<or> (\<exists>e. exec' (probe srv' ''pwd'') = Threw e)"
    by (simp add: watch_connected_def fetch_failed_dir [OF that])
  have answered: "currentWorkingDir (watch_connected exec' srv' True (watch_connected exec srv False s))
      = (if trim (res_output pwdResult) = [] then js ''~'' else trim (res_output pwdResult))"
    if "exec' (probe srv' ''whoami'') = Returned userResult"
      "exec' (probe srv' ''hostname'') = Returned hostnameResult"
      "exec' (probe srv' ''id -u'') = Returned idResult"
      "exec' (probe srv' ''pwd'') = Returned pwdResult"
    for userResult hostnameResult idResult pwdResult
    by (simp add: watch_connected_def
        fetch_answered_dir [of exec' srv' userResult hostnameResult idResult pwdResult, OF that])
  show ?thesis
    using failed answered
    by (simp add: send off ne)
qed

text \<open>
  A pane in \<open>/tmp\<close> loses its connection. After a reconnect on which \<open>hostname\<close> fails,
  \<open>ls\<close> is sent with \<open>/tmp\<close>; after a reconnect on which the probes are answered, with
  \<open>pwd\<close> giving \<open>/home/alice\<close>, it is sent with \<open>/home/alice\<close>.
\<close>

theorem watch_connected_directory_witness:
  "currentPrompt (watch_connected silent prod1 False (init_pane\<lparr>currentWorkingDir := js ''/tmp''\<rparr>))
     = js ''$ ''
   \<and> param_currentDir (executeCommand_params prod1 (js ''ls'')
        (watch_connected whoami_only prod1 True
           (watch_connected silent prod1 False (init_pane\<lparr>currentWorkingDir := js ''/tmp''\<rparr>))))
     = Some (js ''/tmp'')
   \<and> param_currentDir (executeCommand_params prod1 (js ''ls'')
        (watch_connected alice_at_home prod1 True
           (watch_connected silent prod1 False (init_pane\<lparr>currentWorkingDir := js ''/tmp''\<rparr>))))
     = Some (js ''/home/alice'')"
proof -
  let ?s = "init_pane\<lparr>currentWorkingDir := js ''/tmp''\<rparr>"
  have ne: "js ''/tmp'' \<noteq> []"
    by (simp add: js_def)
  have t: "trim (js ''/home/alice'') = js ''/home/alice''"
    by (rule trim_keeps) (simp_all add: js_def isWhiteSpace_def)
  have ne': "js ''/home/alice'' \<noteq> []"
    by (simp add: js_def)
  have f: "(\<exists>e. whoami_only (probe prod1 ''whoami'') = Threw e)
      \<or> (\<exists>e. whoami_only (probe prod1 ''hostname'') = Threw e)
      \<or> (\<exists>e. whoami_only (probe prod1 ''id -u'') = Threw e)
      \<or> (\<exists>e. whoami_only (probe prod1 ''pwd'') = Threw e)"
    by (simp add: whoami_only_def probe_def js_def)
  have a: "alice_at_home (probe prod1 ''whoami'') = Returned (plain_result (js ''alice'') 0 [])"
    "alice_at_home (probe prod1 ''hostname'') = Returned (plain_result (js ''box'') 0 [])"
    "alice_at_home (probe prod1 ''id -u'') = Returned (plain_result (js ''1000'') 0 [])"
    "alice_at_home (probe prod1 ''pwd'') = Returned (plain_result (js ''/home/alice'') 0 [])"
    by (simp_all add: alice_at_home_def probe_def js_def)
  note failing = watch_connected_directory [of silent prod1 ?s prod1 "js ''ls''" "[]" whoami_only]
  note answering = watch_connected_directory [of silent prod1 ?s prod1 "js ''ls''" "[]" alice_at_home]
  have "currentPrompt (watch_connected silent prod1 False ?s) = js ''$ ''"
    using failing [THEN conjunct1] by simp
  moreover have "param_currentDir (executeCommand_params prod1 (js ''ls'')
        (watch_connected whoami_only prod1 True (watch_connected silent prod1 False ?s)))
     = Some (js ''/tmp'')"
    using failing [THEN conjunct2, THEN conjunct2, THEN conjunct2, THEN conjunct1] f ne
    by simp
  moreover have "param_currentDir (executeCommand_params prod1 (js ''ls'')
        (watch_connected alice_at_home prod1 True (watch_connected silent prod1 False ?s)))
     = Some (js ''/home/alice'')"
    using answering [THEN conjunct2, THEN conjunct2, THEN conjunct2, THEN conjunct2] a t ne'
    by (simp add: plain_result_def)
  ultimately show ?thesis
    by (simp only: simp_thms)
qed

text \<open>
  The claim as stated fails when the probes of the reconnect are answered: the first
  command after it is sent with the directory that \<open>pwd\<close> gave, \<open>/home/alice\<close>, not with
  \<open>/tmp\<close>, the directory from before the disconnect.
\<close>

theorem reconnect_directory_counterexample:
  "param_currentDir (executeCommand_params prod1 (js ''ls'')
      (watch_connected alice_at_home prod1 True
         (watch_connected silent prod1 False (init_pane\<lparr>currentWorkingDir := js ''/tmp''\<rparr>))))
   \<noteq> Some (currentWorkingDir (init_pane\<lparr>currentWorkingDir := js ''/tmp''\<rparr>))"
proof -
  have a: "alice_at_home (probe prod1 ''whoami'') = Returned (plain_result (js ''alice'') 0 [])"
    "alice_at_home (probe prod1 ''hostname'') = Returned (plain_result (js ''box'') 0 [])"
    "alice_at_home (probe prod1 ''id -u'') = Returned (plain_result (js ''1000'') 0 [])"
    "alice_at_home (probe prod1 ''pwd'') = Returned (plain_result (js ''/home/alice'') 0 [])"
    by (simp_all add: alice_at_home_def probe_def js_def)
  have t: "trim (js ''/home/alice'') = js ''/home/alice''"
    by (rule trim_keeps) (simp_all add: js_def isWhiteSpace_def)
  have d: "currentWorkingDir (watch_connected alice_at_home prod1 True
         (watch_connected silent prod1 False (init_pane\<lparr>currentWorkingDir := js ''/tmp''\<rparr>)))
      = js ''/home/alice''"
    using t by (simp add: watch_connected_def fetch_answered_dir [OF a] plain_result_def)
      (simp add: js_def)
  show ?thesis
    by (simp add: executeCommand_params_def or_else_def d) (simp add: js_def)
qed

end
